theory Spec2Isabelle
  imports Complex_Main
begin

section \<open>Strings of the run-time\<close>

text \<open>
  A JavaScript string is modelled as a \<^typ>\<open>string\<close>: one \<^typ>\<open>char\<close> per code unit,
  for code units below 256. An optional property (\<open>search_query?: string\<close>) is an
  \<^typ>\<open>string option\<close>, \<open>None\<close> being \<open>undefined\<close>.
\<close>

text \<open>The apostrophe that the messages of the validator put around names.\<close>

definition apostrophe :: char where
  "apostrophe = CHR 0x27"

text \<open>
  \<open>String.prototype.trim\<close> removes white space and line terminators from both ends; below
  256 these are TAB, LF, VT, FF, CR, SPACE and NBSP.
\<close>

definition is_js_space :: "char \<Rightarrow> bool" where
  "is_js_space c \<longleftrightarrow>
     c = CHR 0x09 \<or> c = CHR 0x0A \<or> c = CHR 0x0B \<or> c = CHR 0x0C \<or> c = CHR 0x0D
     \<or> c = CHR 0x20 \<or> c = CHR 0xA0"

definition trim :: "string \<Rightarrow> string" where
  "trim s = rev (dropWhile is_js_space (rev (dropWhile is_js_space s)))"

text \<open>
  \<open>s.split(',')\<close>: the pieces between the separators, in order; a string with no
  separator is one piece, and the empty string gives one empty piece.
\<close>

fun split :: "char \<Rightarrow> string \<Rightarrow> string list" where
  "split sep [] = [[]]"
| "split sep (c # cs) =
     (if c = sep then [] # split sep cs
      else (case split sep cs of
              [] \<Rightarrow> [[c]]
            | w # ws \<Rightarrow> (c # w) # ws))"

text \<open>\<open>xs.includes(x)\<close> on an array of strings.\<close>

definition array_includes :: "string list \<Rightarrow> string \<Rightarrow> bool" where
  "array_includes xs x \<longleftrightarrow> x \<in> set xs"

text \<open>Truthiness of an optional string: \<open>undefined\<close> and \<open>''\<close> are falsy.\<close>

definition truthy_str :: "string option \<Rightarrow> bool" where
  "truthy_str v = (case v of None \<Rightarrow> False | Some s \<Rightarrow> s \<noteq> [])"

text \<open>What a template literal \<open>`${v}`\<close> prints for an optional string.\<close>

definition template_str :: "string option \<Rightarrow> string" where
  "template_str v = (case v of None \<Rightarrow> ''undefined'' | Some s \<Rightarrow> s)"

text \<open>What a template literal prints for a non-negative integer: its decimal digits.\<close>

definition digit_char :: "nat \<Rightarrow> char" where
  "digit_char d = ''0123456789'' ! d"

fun template_nat :: "nat \<Rightarrow> string" where
  "template_nat n =
     (if n < 10 then [digit_char n] else template_nat (n div 10) @ [digit_char (n mod 10)])"

declare template_nat.simps [simp del]

text \<open>
  \<open>xs.forEach((x, index) => ...)\<close> with a callback that updates a state: the elements in
  order, each with its 0-based index.
\<close>

fun forEach_from :: "nat \<Rightarrow> 'a list \<Rightarrow> ('a \<Rightarrow> nat \<Rightarrow> 's \<Rightarrow> 's) \<Rightarrow> 's \<Rightarrow> 's" where
  "forEach_from i [] f s = s"
| "forEach_from i (x # xs) f s = forEach_from (Suc i) xs f (f x i s)"

definition forEach :: "'a list \<Rightarrow> ('a \<Rightarrow> nat \<Rightarrow> 's \<Rightarrow> 's) \<Rightarrow> 's \<Rightarrow> 's" where
  "forEach xs f s = forEach_from 0 xs f s"

section \<open>Numbers of the run-time\<close>

text \<open>
  A JavaScript number is a finite value, one of the two infinities, or NaN. The finite
  values are modelled as reals: arithmetic on them is exact (no rounding and no overflow),
  and the two zeros are one value. An optional number (\<open>page?: number\<close>) is a
  \<^typ>\<open>'a option\<close> of it.
\<close>

datatype number = Num real | PosInf | NegInf | NaN

text \<open>Truthiness: \<open>0\<close> and \<open>NaN\<close> are falsy.\<close>

fun truthy :: "number \<Rightarrow> bool" where
  "truthy (Num r) = (r \<noteq> 0)"
| "truthy NaN = False"
| "truthy PosInf = True"
| "truthy NegInf = True"

fun isNaN :: "number \<Rightarrow> bool" where
  "isNaN NaN = True"
| "isNaN _ = False"

text \<open>\<open>a < b\<close>: false as soon as one side is NaN.\<close>

fun num_lt :: "number \<Rightarrow> number \<Rightarrow> bool" where
  "num_lt NaN _ = False"
| "num_lt _ NaN = False"
| "num_lt (Num a) (Num b) = (a < b)"
| "num_lt PosInf _ = False"
| "num_lt _ NegInf = False"
| "num_lt NegInf _ = True"
| "num_lt _ PosInf = True"

text \<open>\<open>a > b\<close> is \<open>b < a\<close>.\<close>

definition num_gt :: "number \<Rightarrow> number \<Rightarrow> bool" where
  "num_gt a b = num_lt b a"

text \<open>\<open>a <= b\<close>, false as well when one side is NaN.\<close>

fun num_le :: "number \<Rightarrow> number \<Rightarrow> bool" where
  "num_le NaN _ = False"
| "num_le _ NaN = False"
| "num_le (Num a) (Num b) = (a \<le> b)"
| "num_le NegInf _ = True"
| "num_le _ PosInf = True"
| "num_le PosInf _ = False"
| "num_le _ NegInf = False"

fun Math_floor :: "number \<Rightarrow> number" where
  "Math_floor (Num r) = Num (of_int \<lfloor>r\<rfloor>)"
| "Math_floor x = x"

fun Math_ceil :: "number \<Rightarrow> number" where
  "Math_ceil (Num r) = Num (of_int \<lceil>r\<rceil>)"
| "Math_ceil x = x"

text \<open>\<open>Math.max\<close> and \<open>Math.min\<close> of two arguments: NaN as soon as one is NaN.\<close>

fun Math_max :: "number \<Rightarrow> number \<Rightarrow> number" where
  "Math_max NaN _ = NaN"
| "Math_max _ NaN = NaN"
| "Math_max PosInf _ = PosInf"
| "Math_max _ PosInf = PosInf"
| "Math_max NegInf b = b"
| "Math_max a NegInf = a"
| "Math_max (Num a) (Num b) = Num (max a b)"

fun Math_min :: "number \<Rightarrow> number \<Rightarrow> number" where
  "Math_min NaN _ = NaN"
| "Math_min _ NaN = NaN"
| "Math_min NegInf _ = NegInf"
| "Math_min _ NegInf = NegInf"
| "Math_min PosInf b = b"
| "Math_min a PosInf = a"
| "Math_min (Num a) (Num b) = Num (min a b)"

fun num_add :: "number \<Rightarrow> number \<Rightarrow> number" where
  "num_add NaN _ = NaN"
| "num_add _ NaN = NaN"
| "num_add (Num a) (Num b) = Num (a + b)"
| "num_add PosInf NegInf = NaN"
| "num_add NegInf PosInf = NaN"
| "num_add PosInf _ = PosInf"
| "num_add _ PosInf = PosInf"
| "num_add NegInf _ = NegInf"
| "num_add _ NegInf = NegInf"

fun num_sub :: "number \<Rightarrow> number \<Rightarrow> number" where
  "num_sub NaN _ = NaN"
| "num_sub _ NaN = NaN"
| "num_sub (Num a) (Num b) = Num (a - b)"
| "num_sub PosInf PosInf = NaN"
| "num_sub NegInf NegInf = NaN"
| "num_sub PosInf _ = PosInf"
| "num_sub _ NegInf = PosInf"
| "num_sub NegInf _ = NegInf"
| "num_sub _ PosInf = NegInf"

text \<open>An infinity with the sign of the real \<open>r\<close>; of zero it is NaN (\<open>Infinity * 0\<close>).\<close>

definition signed_inf :: "real \<Rightarrow> number" where
  "signed_inf r = (if r = 0 then NaN else if 0 < r then PosInf else NegInf)"

fun num_mul :: "number \<Rightarrow> number \<Rightarrow> number" where
  "num_mul NaN _ = NaN"
| "num_mul _ NaN = NaN"
| "num_mul (Num a) (Num b) = Num (a * b)"
| "num_mul PosInf (Num b) = signed_inf b"
| "num_mul NegInf (Num b) = signed_inf (- b)"
| "num_mul (Num a) PosInf = signed_inf a"
| "num_mul (Num a) NegInf = signed_inf (- a)"
| "num_mul PosInf PosInf = PosInf"
| "num_mul NegInf NegInf = PosInf"
| "num_mul PosInf NegInf = NegInf"
| "num_mul NegInf PosInf = NegInf"

text \<open>
  Division: a finite non-zero value over zero is an infinity of its sign, \<open>0 / 0\<close> and
  an infinity over an infinity are NaN, a finite value over an infinity is zero.
\<close>

fun num_div :: "number \<Rightarrow> number \<Rightarrow> number" where
  "num_div NaN _ = NaN"
| "num_div _ NaN = NaN"
| "num_div (Num a) (Num b) = (if b = 0 then signed_inf a else Num (a / b))"
| "num_div (Num a) _ = Num 0"
| "num_div PosInf (Num b) = (if 0 \<le> b then PosInf else NegInf)"
| "num_div NegInf (Num b) = (if 0 \<le> b then NegInf else PosInf)"
| "num_div _ _ = NaN"

text \<open>
  An absent number is \<open>undefined\<close>. It is falsy, \<open>isNaN(undefined)\<close> is true and
  \<open>undefined < 1\<close> is false, which is how NaN behaves: the model reads it as NaN.
\<close>

definition ToNumber :: "number option \<Rightarrow> number" where
  "ToNumber v = (case v of None \<Rightarrow> NaN | Some x \<Rightarrow> x)"

text \<open>\<open>v || d\<close> for an optional number \<open>v\<close> and a number \<open>d\<close>.\<close>

definition or_else :: "number option \<Rightarrow> number \<Rightarrow> number" where
  "or_else v d = (case v of None \<Rightarrow> d | Some x \<Rightarrow> if truthy x then x else d)"

section \<open>The filter vocabulary and the request objects (pagination.dto.ts)\<close>

text \<open>
  The enum \<open>FilterType\<close>. TypeScript does not check an enum at run time, and the validator
  has a \<open>default\<close> branch for a value outside it: \<open>OTHER\<close> carries such a value.
\<close>

datatype FilterType =
    EQUAL | NOT_EQUAL
  | LIKE | ILIKE | NOT_LIKE | NOT_ILIKE
  | GREATER_THAN | GREATER_EQUAL | LESS_THAN | LESS_EQUAL
  | BETWEEN | NOT_BETWEEN
  | IN | NOT_IN
  | IS_NULL | IS_NOT_NULL
  | STARTS_WITH | ENDS_WITH | CONTAINS | ICONTAINS
  | REGEXP | IREGEXP
  | JSON_CONTAINS | JSON_CONTAINED | JSON_EXTRACT | JSON_EXTRACT_TEXT
  | ARRAY_CONTAINS | ARRAY_OVERLAP
  | OTHER string

text \<open>The string value of each member, which is what a template literal prints.\<close>

fun FilterType_value :: "FilterType \<Rightarrow> string" where
  "FilterType_value EQUAL = ''equal''"
| "FilterType_value NOT_EQUAL = ''not_equal''"
| "FilterType_value LIKE = ''like''"
| "FilterType_value ILIKE = ''ilike''"
| "FilterType_value NOT_LIKE = ''not_like''"
| "FilterType_value NOT_ILIKE = ''not_ilike''"
| "FilterType_value GREATER_THAN = ''greater_than''"
| "FilterType_value GREATER_EQUAL = ''greater_equal''"
| "FilterType_value LESS_THAN = ''less_than''"
| "FilterType_value LESS_EQUAL = ''less_equal''"
| "FilterType_value BETWEEN = ''between''"
| "FilterType_value NOT_BETWEEN = ''not_between''"
| "FilterType_value IN = ''in''"
| "FilterType_value NOT_IN = ''not_in''"
| "FilterType_value IS_NULL = ''is_null''"
| "FilterType_value IS_NOT_NULL = ''is_not_null''"
| "FilterType_value STARTS_WITH = ''starts_with''"
| "FilterType_value ENDS_WITH = ''ends_with''"
| "FilterType_value CONTAINS = ''contains''"
| "FilterType_value ICONTAINS = ''icontains''"
| "FilterType_value REGEXP = ''regexp''"
| "FilterType_value IREGEXP = ''iregexp''"
| "FilterType_value JSON_CONTAINS = ''json_contains''"
| "FilterType_value JSON_CONTAINED = ''json_contained''"
| "FilterType_value JSON_EXTRACT = ''json_extract''"
| "FilterType_value JSON_EXTRACT_TEXT = ''json_extract_text''"
| "FilterType_value ARRAY_CONTAINS = ''array_contains''"
| "FilterType_value ARRAY_OVERLAP = ''array_overlap''"
| "FilterType_value (OTHER s) = s"

record PaginationFilterDto =
  search_by :: string
  filter_type :: FilterType
  search_query :: "string option"
  start_value :: "string option"
  end_value :: "string option"
  values_list :: "string option"

record PaginationRequestDto =
  page :: "number option"
  per_page :: "number option"
  sort_by :: "string option"
  sort_order :: "string option"
  filters :: "PaginationFilterDto list option"

text \<open>
  \<open>QueryRequestBodyDto\<close> (search-query.dto.ts), what the search helper receives; its
  properties carry the prefix \<open>q_\<close> here.
\<close>

record QueryRequestBodyDto =
  q_search :: "string option"
  q_sort_by :: "string option"
  q_sort_order :: "string option"
  q_filters :: "PaginationFilterDto list option"

section \<open>PaginationHelper.validateFilters (pagination.helper.ts)\<close>

text \<open>
  The function reads its two arguments and pushes onto the local array \<open>errors\<close>. The
  state of a run holds all three, so that what the run writes is visible. The type of the
  first argument is a parameter of the state: a list of descriptors where the argument has
  its declared type \<open>PaginationFilterDto[]\<close>, a value of the run-time further down.
\<close>

record 'v validate_state =
  vs_filters :: "'v"
  vs_allowedFields :: "string list"
  vs_errors :: "string list"

definition errors_push :: "string \<Rightarrow> 'v validate_state \<Rightarrow> 'v validate_state" where
  "errors_push msg s = s\<lparr>vs_errors := vs_errors s @ [msg]\<rparr>"

definition msg_not_allowed :: "nat \<Rightarrow> PaginationFilterDto \<Rightarrow> string" where
  "msg_not_allowed index fltr =
     ''Filter '' @ template_nat (index + 1) @ '': '' @ [apostrophe] @ search_by fltr
       @ [apostrophe] @ '' is not an allowed search field''"

definition msg_search_query :: "nat \<Rightarrow> PaginationFilterDto \<Rightarrow> string" where
  "msg_search_query index fltr =
     ''Filter '' @ template_nat (index + 1) @ '': '' @ [apostrophe] @ ''search_query''
       @ [apostrophe] @ '' is required for '' @ FilterType_value (filter_type fltr)
       @ '' filter''"

definition msg_start_end :: "nat \<Rightarrow> PaginationFilterDto \<Rightarrow> string" where
  "msg_start_end index fltr =
     ''Filter '' @ template_nat (index + 1) @ '': '' @ [apostrophe] @ ''start_value''
       @ [apostrophe] @ '' and '' @ [apostrophe] @ ''end_value'' @ [apostrophe]
       @ '' are required for '' @ FilterType_value (filter_type fltr) @ '' filter''"

definition msg_values_list :: "nat \<Rightarrow> PaginationFilterDto \<Rightarrow> string" where
  "msg_values_list index fltr =
     ''Filter '' @ template_nat (index + 1) @ '': '' @ [apostrophe] @ ''values_list''
       @ [apostrophe] @ '' is required for '' @ FilterType_value (filter_type fltr)
       @ '' filter''"

definition msg_unknown_type :: "nat \<Rightarrow> PaginationFilterDto \<Rightarrow> string" where
  "msg_unknown_type index fltr =
     ''Filter '' @ template_nat (index + 1) @ '': Unknown filter type '' @ [apostrophe]
       @ FilterType_value (filter_type fltr) @ [apostrophe]"

text \<open>The three bodies that the cases of the \<open>switch\<close> share.\<close>

definition require_search_query ::
  "nat \<Rightarrow> PaginationFilterDto \<Rightarrow> 'v validate_state \<Rightarrow> 'v validate_state" where
  "require_search_query index fltr s =
     (if \<not> truthy_str (search_query fltr)
      then errors_push (msg_search_query index fltr) s else s)"

definition require_start_end ::
  "nat \<Rightarrow> PaginationFilterDto \<Rightarrow> 'v validate_state \<Rightarrow> 'v validate_state" where
  "require_start_end index fltr s =
     (if \<not> truthy_str (start_value fltr) \<or> \<not> truthy_str (end_value fltr)
      then errors_push (msg_start_end index fltr) s else s)"

definition require_values_list ::
  "nat \<Rightarrow> PaginationFilterDto \<Rightarrow> 'v validate_state \<Rightarrow> 'v validate_state" where
  "require_values_list index fltr s =
     (if \<not> truthy_str (values_list fltr)
      then errors_push (msg_values_list index fltr) s else s)"

fun validate_switch ::
  "FilterType \<Rightarrow> nat \<Rightarrow> PaginationFilterDto \<Rightarrow> 'v validate_state \<Rightarrow> 'v validate_state" where
  "validate_switch EQUAL index fltr s = require_search_query index fltr s"
| "validate_switch NOT_EQUAL index fltr s = require_search_query index fltr s"
| "validate_switch LIKE index fltr s = require_search_query index fltr s"
| "validate_switch ILIKE index fltr s = require_search_query index fltr s"
| "validate_switch NOT_LIKE index fltr s = require_search_query index fltr s"
| "validate_switch NOT_ILIKE index fltr s = require_search_query index fltr s"
| "validate_switch GREATER_THAN index fltr s = require_search_query index fltr s"
| "validate_switch GREATER_EQUAL index fltr s = require_search_query index fltr s"
| "validate_switch LESS_THAN index fltr s = require_search_query index fltr s"
| "validate_switch LESS_EQUAL index fltr s = require_search_query index fltr s"
| "validate_switch STARTS_WITH index fltr s = require_search_query index fltr s"
| "validate_switch ENDS_WITH index fltr s = require_search_query index fltr s"
| "validate_switch CONTAINS index fltr s = require_search_query index fltr s"
| "validate_switch ICONTAINS index fltr s = require_search_query index fltr s"
| "validate_switch REGEXP index fltr s = require_search_query index fltr s"
| "validate_switch IREGEXP index fltr s = require_search_query index fltr s"
| "validate_switch JSON_CONTAINS index fltr s = require_search_query index fltr s"
| "validate_switch JSON_CONTAINED index fltr s = require_search_query index fltr s"
| "validate_switch JSON_EXTRACT index fltr s = require_search_query index fltr s"
| "validate_switch JSON_EXTRACT_TEXT index fltr s = require_search_query index fltr s"
| "validate_switch ARRAY_CONTAINS index fltr s = require_search_query index fltr s"
| "validate_switch BETWEEN index fltr s = require_start_end index fltr s"
| "validate_switch NOT_BETWEEN index fltr s = require_start_end index fltr s"
| "validate_switch IN index fltr s = require_values_list index fltr s"
| "validate_switch NOT_IN index fltr s = require_values_list index fltr s"
| "validate_switch ARRAY_OVERLAP index fltr s = require_values_list index fltr s"
| "validate_switch IS_NULL index fltr s = s"
| "validate_switch IS_NOT_NULL index fltr s = s"
| "validate_switch (OTHER v) index fltr s = errors_push (msg_unknown_type index fltr) s"

text \<open>The callback of \<open>filters.forEach\<close>: the membership test, then the \<open>switch\<close>.\<close>

definition validate_callback ::
  "PaginationFilterDto \<Rightarrow> nat \<Rightarrow> 'v validate_state \<Rightarrow> 'v validate_state" where
  "validate_callback fltr index s =
     (let s1 = (if \<not> array_includes (vs_allowedFields s) (search_by fltr)
                then errors_push (msg_not_allowed index fltr) s else s)
      in validate_switch (filter_type fltr) index fltr s1)"

definition validateFilters_run ::
  "PaginationFilterDto list \<Rightarrow> string list \<Rightarrow> PaginationFilterDto list validate_state" where
  "validateFilters_run fltrs allowedFields =
     forEach fltrs validate_callback
       \<lparr>vs_filters = fltrs, vs_allowedFields = allowedFields, vs_errors = []\<rparr>"

definition validateFilters :: "PaginationFilterDto list \<Rightarrow> string list \<Rightarrow> string list" where
  "validateFilters fltrs allowedFields = vs_errors (validateFilters_run fltrs allowedFields)"







text \<open>
  What the callback pushes for one filter at one index: the messages of a run of the callback
  on an empty \<open>errors\<close> array.
\<close>

definition filter_errors :: "string list \<Rightarrow> nat \<Rightarrow> PaginationFilterDto \<Rightarrow> string list" where
  "filter_errors allowedFields index fltr =
     vs_errors (validate_callback fltr index
       \<lparr>vs_filters = ([] :: PaginationFilterDto list), vs_allowedFields = allowedFields,
        vs_errors = []\<rparr>)"

text \<open>
  Every message of the validator begins with the position of its filter, counted from 1:
  \<open>Filter <position>: \<close>. \<open>messages_at index errs\<close> are the messages of \<open>errs\<close>
  that begin with the position of the filter at \<open>index\<close>.
\<close>

definition position_prefix :: "nat \<Rightarrow> string" where
  "position_prefix index = ''Filter '' @ template_nat (index + 1) @ '': ''"

definition messages_at :: "nat \<Rightarrow> string list \<Rightarrow> string list" where
  "messages_at index errs =
     filter (\<lambda>msg. take (length (position_prefix index)) msg = position_prefix index) errs"

text \<open>The number that a string of decimal digits denotes.\<close>

definition digit_value :: "char \<Rightarrow> nat" where
  "digit_value c = of_char c - 48"

definition decimal_value :: "string \<Rightarrow> nat" where
  "decimal_value ds = foldl (\<lambda>acc c. 10 * acc + digit_value c) 0 ds"

text \<open>
  The arity classes, as the \<open>switch\<close> of the validator groups the operators; a value
  outside the enum has none.
\<close>

datatype arity = SingleValue | Range | ValueList | NoOperand

fun arity_class :: "FilterType \<Rightarrow> arity option" where
  "arity_class BETWEEN = Some Range"
| "arity_class NOT_BETWEEN = Some Range"
| "arity_class IN = Some ValueList"
| "arity_class NOT_IN = Some ValueList"
| "arity_class ARRAY_OVERLAP = Some ValueList"
| "arity_class IS_NULL = Some NoOperand"
| "arity_class IS_NOT_NULL = Some NoOperand"
| "arity_class (OTHER v) = None"
| "arity_class _ = Some SingleValue"

text \<open>
  The operands that the class of the operator requires are there: defined and not empty,
  which is what the validator tests.
\<close>

definition arity_satisfied :: "PaginationFilterDto \<Rightarrow> bool" where
  "arity_satisfied fltr =
     (case arity_class (filter_type fltr) of
        None \<Rightarrow> False
      | Some SingleValue \<Rightarrow> truthy_str (search_query fltr)
      | Some Range \<Rightarrow> truthy_str (start_value fltr) \<and> truthy_str (end_value fltr)
      | Some ValueList \<Rightarrow> truthy_str (values_list fltr)
      | Some NoOperand \<Rightarrow> True)"

text \<open>The message of the validator for a filter whose required operands are not there.\<close>

definition arity_message :: "nat \<Rightarrow> PaginationFilterDto \<Rightarrow> string" where
  "arity_message index fltr =
     (case arity_class (filter_type fltr) of
        None \<Rightarrow> msg_unknown_type index fltr
      | Some SingleValue \<Rightarrow> msg_search_query index fltr
      | Some Range \<Rightarrow> msg_start_end index fltr
      | Some ValueList \<Rightarrow> msg_values_list index fltr
      | Some NoOperand \<Rightarrow> [])"

text \<open>
  The invariant as the specification words it: the operand fields that are there are
  exactly those that the class of the operator requires.
\<close>

definition spec_operands_exact :: "PaginationFilterDto \<Rightarrow> bool" where
  "spec_operands_exact fltr =
     (let q = truthy_str (search_query fltr); a = truthy_str (start_value fltr);
          b = truthy_str (end_value fltr); l = truthy_str (values_list fltr)
      in case arity_class (filter_type fltr) of
           None \<Rightarrow> False
         | Some SingleValue \<Rightarrow> q \<and> \<not> a \<and> \<not> b \<and> \<not> l
         | Some Range \<Rightarrow> \<not> q \<and> a \<and> b \<and> \<not> l
         | Some ValueList \<Rightarrow> \<not> q \<and> \<not> a \<and> \<not> b \<and> l
         | Some NoOperand \<Rightarrow> \<not> q \<and> \<not> a \<and> \<not> b \<and> \<not> l)"

section \<open>The query builder and the console\<close>

text \<open>
  Of TypeORM's \<open>SelectQueryBuilder\<close> the helpers call \<open>andWhere\<close>, \<open>orderBy\<close>,
  \<open>skip\<close> and \<open>take\<close>. The model records what they are given: the conditions with their
  parameters, in the order of the calls, the current ordering (\<open>orderBy\<close> replaces it),
  and the two bounds.
\<close>

datatype param_value = PUndefined | PString string | PArray "string list"

type_synonym parameters = "(string \<times> param_value) list"

record query_builder =
  qb_wheres :: "(string \<times> parameters) list"
  qb_orderBy :: "(string \<times> string) option"
  qb_skip :: "number option"
  qb_take :: "number option"

definition qb_andWhere :: "string \<Rightarrow> parameters \<Rightarrow> query_builder \<Rightarrow> query_builder" where
  "qb_andWhere cond params qb = qb\<lparr>qb_wheres := qb_wheres qb @ [(cond, params)]\<rparr>"

definition orderBy :: "string \<Rightarrow> string \<Rightarrow> query_builder \<Rightarrow> query_builder" where
  "orderBy sortKey ord qb = qb\<lparr>qb_orderBy := Some (sortKey, ord)\<rparr>"

definition skip :: "number \<Rightarrow> query_builder \<Rightarrow> query_builder" where
  "skip n qb = qb\<lparr>qb_skip := Some n\<rparr>"

definition take_rows :: "number \<Rightarrow> query_builder \<Rightarrow> query_builder" where
  "take_rows n qb = qb\<lparr>qb_take := Some n\<rparr>"

text \<open>The console: what \<open>console.warn\<close> and \<open>console.error\<close> were given, in order.\<close>

datatype console_level = WARN | ERROR

record compile_state =
  builder :: query_builder
  console :: "(console_level \<times> string) list"

definition andWhere :: "string \<Rightarrow> parameters \<Rightarrow> compile_state \<Rightarrow> compile_state" where
  "andWhere cond params s = s\<lparr>builder := qb_andWhere cond params (builder s)\<rparr>"

definition console_error :: "string \<Rightarrow> compile_state \<Rightarrow> compile_state" where
  "console_error msg s = s\<lparr>console := console s @ [(ERROR, msg)]\<rparr>"

definition console_warn :: "string \<Rightarrow> compile_state \<Rightarrow> compile_state" where
  "console_warn msg s = s\<lparr>console := console s @ [(WARN, msg)]\<rparr>"

text \<open>An optional string as the value of a parameter.\<close>

definition param_of :: "string option \<Rightarrow> param_value" where
  "param_of v = (case v of None \<Rightarrow> PUndefined | Some s \<Rightarrow> PString s)"

text \<open>\<open>v || d\<close> for an optional string \<open>v\<close> and a string \<open>d\<close>.\<close>

definition str_or :: "string option \<Rightarrow> string \<Rightarrow> string" where
  "str_or v d = (case v of None \<Rightarrow> d | Some s \<Rightarrow> if s = [] then d else s)"

text \<open>
  \<open>s.toUpperCase()\<close>, for the letters \<open>a\<close> to \<open>z\<close>; the code applies it to the four
  accepted spellings of the sort order only.
\<close>

definition upper_char :: "char \<Rightarrow> char" where
  "upper_char c =
     (let n = (of_char c :: nat) in if 97 \<le> n \<and> n \<le> 122 then char_of (n - 32) else c)"

definition toUpperCase :: "string \<Rightarrow> string" where
  "toUpperCase s = map upper_char s"

section \<open>SearchHelper.buildSearchQuery (search-query.dto.ts)\<close>

text \<open>
  The test on the field name that guards the \<open>switch\<close>. The field is a string by its
  declared type, so the \<open>typeof\<close> conjunct is true.
\<close>

definition field_accepted :: "string list \<Rightarrow> string \<Rightarrow> bool" where
  "field_accepted allowed name \<longleftrightarrow>
     name \<noteq> [] \<and> trim name \<noteq> [] \<and> name \<noteq> ''NaN'' \<and> name \<noteq> ''undefined''
     \<and> name \<noteq> ''null'' \<and> array_includes allowed name"

text \<open>
  The list operators: \<open>values_list.split(',').map((val) => val.trim())\<close>, bound when
  \<open>values_list\<close> is truthy.
\<close>

definition bind_values_list ::
  "string \<Rightarrow> string \<Rightarrow> string option \<Rightarrow> compile_state \<Rightarrow> compile_state" where
  "bind_values_list cond paramName vl s =
     (case vl of
        None \<Rightarrow> s
      | Some v \<Rightarrow>
          if v = [] then s
          else (let vals = map trim (split (CHR '','') v)
                in andWhere cond [(paramName, PArray vals)] s))"

text \<open>
  The structured-value operators. \<open>JSON.parse\<close> and \<open>JSON.stringify\<close> are the
  platform's and are parameters here: \<open>parse\<close> returns \<open>None\<close> where
  \<open>JSON.parse\<close> throws, which the \<open>catch\<close> turns into a line on the console.
\<close>

definition bind_json ::
  "(string \<Rightarrow> 'j option) \<Rightarrow> ('j \<Rightarrow> string) \<Rightarrow> string \<Rightarrow> string \<Rightarrow> string option
     \<Rightarrow> compile_state \<Rightarrow> compile_state" where
  "bind_json parse stringify cond paramName sq s =
     (case parse (str_or sq ''{}'') of
        Some jsonValue \<Rightarrow> andWhere cond [(paramName, PString (stringify jsonValue))] s
      | None \<Rightarrow> console_error (''Invalid JSON in filter: '' @ template_str sq) s)"

text \<open>The range operators: two parameters, bound when both bounds are truthy.\<close>

definition bind_range ::
  "string \<Rightarrow> string \<Rightarrow> PaginationFilterDto \<Rightarrow> compile_state \<Rightarrow> compile_state" where
  "bind_range cond paramName fltr s =
     (if truthy_str (start_value fltr) \<and> truthy_str (end_value fltr)
      then andWhere cond
             [(''start_'' @ paramName, param_of (start_value fltr)),
              (''end_'' @ paramName, param_of (end_value fltr))] s
      else s)"

fun compile_switch ::
  "(string \<Rightarrow> 'j option) \<Rightarrow> ('j \<Rightarrow> string) \<Rightarrow> FilterType \<Rightarrow> string \<Rightarrow> string
     \<Rightarrow> PaginationFilterDto \<Rightarrow> compile_state \<Rightarrow> compile_state" where
  "compile_switch parse stringify EQUAL fieldName paramName fltr s =
     andWhere (fieldName @ '' = :'' @ paramName) [(paramName, param_of (search_query fltr))] s"
| "compile_switch parse stringify NOT_EQUAL fieldName paramName fltr s =
     andWhere (fieldName @ '' != :'' @ paramName) [(paramName, param_of (search_query fltr))] s"
| "compile_switch parse stringify LIKE fieldName paramName fltr s =
     andWhere (fieldName @ '' LIKE :'' @ paramName)
       [(paramName, PString (''%'' @ template_str (search_query fltr) @ ''%''))] s"
| "compile_switch parse stringify ILIKE fieldName paramName fltr s =
     andWhere (''LOWER('' @ fieldName @ '') LIKE LOWER(:'' @ paramName @ '')'')
       [(paramName, PString (''%'' @ template_str (search_query fltr) @ ''%''))] s"
| "compile_switch parse stringify NOT_LIKE fieldName paramName fltr s =
     andWhere (fieldName @ '' NOT LIKE :'' @ paramName)
       [(paramName, PString (''%'' @ template_str (search_query fltr) @ ''%''))] s"
| "compile_switch parse stringify NOT_ILIKE fieldName paramName fltr s =
     andWhere (''LOWER('' @ fieldName @ '') NOT LIKE LOWER(:'' @ paramName @ '')'')
       [(paramName, PString (''%'' @ template_str (search_query fltr) @ ''%''))] s"
| "compile_switch parse stringify STARTS_WITH fieldName paramName fltr s =
     andWhere (fieldName @ '' LIKE :'' @ paramName)
       [(paramName, PString (template_str (search_query fltr) @ ''%''))] s"
| "compile_switch parse stringify ENDS_WITH fieldName paramName fltr s =
     andWhere (fieldName @ '' LIKE :'' @ paramName)
       [(paramName, PString (''%'' @ template_str (search_query fltr)))] s"
| "compile_switch parse stringify CONTAINS fieldName paramName fltr s =
     andWhere (fieldName @ '' LIKE :'' @ paramName)
       [(paramName, PString (''%'' @ template_str (search_query fltr) @ ''%''))] s"
| "compile_switch parse stringify ICONTAINS fieldName paramName fltr s =
     andWhere (''LOWER('' @ fieldName @ '') LIKE LOWER(:'' @ paramName @ '')'')
       [(paramName, PString (''%'' @ template_str (search_query fltr) @ ''%''))] s"
| "compile_switch parse stringify GREATER_THAN fieldName paramName fltr s =
     andWhere (fieldName @ '' > :'' @ paramName) [(paramName, param_of (search_query fltr))] s"
| "compile_switch parse stringify GREATER_EQUAL fieldName paramName fltr s =
     andWhere (fieldName @ '' >= :'' @ paramName) [(paramName, param_of (search_query fltr))] s"
| "compile_switch parse stringify LESS_THAN fieldName paramName fltr s =
     andWhere (fieldName @ '' < :'' @ paramName) [(paramName, param_of (search_query fltr))] s"
| "compile_switch parse stringify LESS_EQUAL fieldName paramName fltr s =
     andWhere (fieldName @ '' <= :'' @ paramName) [(paramName, param_of (search_query fltr))] s"
| "compile_switch parse stringify BETWEEN fieldName paramName fltr s =
     bind_range (fieldName @ '' BETWEEN :start_'' @ paramName @ '' AND :end_'' @ paramName)
       paramName fltr s"
| "compile_switch parse stringify NOT_BETWEEN fieldName paramName fltr s =
     bind_range (fieldName @ '' NOT BETWEEN :start_'' @ paramName @ '' AND :end_'' @ paramName)
       paramName fltr s"
| "compile_switch parse stringify IN fieldName paramName fltr s =
     bind_values_list (fieldName @ '' IN (:...'' @ paramName @ '')'') paramName
       (values_list fltr) s"
| "compile_switch parse stringify NOT_IN fieldName paramName fltr s =
     bind_values_list (fieldName @ '' NOT IN (:...'' @ paramName @ '')'') paramName
       (values_list fltr) s"
| "compile_switch parse stringify IS_NULL fieldName paramName fltr s =
     andWhere (fieldName @ '' IS NULL'') [] s"
| "compile_switch parse stringify IS_NOT_NULL fieldName paramName fltr s =
     andWhere (fieldName @ '' IS NOT NULL'') [] s"
| "compile_switch parse stringify REGEXP fieldName paramName fltr s =
     andWhere (fieldName @ '' REGEXP :'' @ paramName)
       [(paramName, param_of (search_query fltr))] s"
| "compile_switch parse stringify IREGEXP fieldName paramName fltr s =
     andWhere (''LOWER('' @ fieldName @ '') REGEXP LOWER(:'' @ paramName @ '')'')
       [(paramName, param_of (search_query fltr))] s"
| "compile_switch parse stringify JSON_CONTAINS fieldName paramName fltr s =
     bind_json parse stringify (fieldName @ '' @> :'' @ paramName) paramName
       (search_query fltr) s"
| "compile_switch parse stringify JSON_CONTAINED fieldName paramName fltr s =
     bind_json parse stringify (fieldName @ '' <@ :'' @ paramName) paramName
       (search_query fltr) s"
| "compile_switch parse stringify ARRAY_CONTAINS fieldName paramName fltr s =
     (if truthy_str (search_query fltr)
      then andWhere (fieldName @ '' @> ARRAY[:'' @ paramName @ '']'')
             [(paramName, param_of (search_query fltr))] s
      else s)"
| "compile_switch parse stringify ARRAY_OVERLAP fieldName paramName fltr s =
     bind_values_list (fieldName @ '' && ARRAY[:...'' @ paramName @ '']'') paramName
       (values_list fltr) s"
| "compile_switch parse stringify JSON_EXTRACT fieldName paramName fltr s =
     console_warn (''JSON path extraction ('' @ FilterType_value (filter_type fltr)
       @ '') not fully implemented. Needs database-specific handling.'') s"
| "compile_switch parse stringify JSON_EXTRACT_TEXT fieldName paramName fltr s =
     console_warn (''JSON path extraction ('' @ FilterType_value (filter_type fltr)
       @ '') not fully implemented. Needs database-specific handling.'') s"
| "compile_switch parse stringify (OTHER v) fieldName paramName fltr s = s"

text \<open>The callback of \<open>query.filters.forEach\<close>.\<close>

definition compile_callback ::
  "(string \<Rightarrow> 'j option) \<Rightarrow> ('j \<Rightarrow> string) \<Rightarrow> string list \<Rightarrow> string
     \<Rightarrow> PaginationFilterDto \<Rightarrow> nat \<Rightarrow> compile_state \<Rightarrow> compile_state" where
  "compile_callback parse stringify allowedFields alias fltr index s =
     (if field_accepted allowedFields (search_by fltr)
      then (let fieldName = alias @ ''.'' @ search_by fltr;
                paramName = ''param_'' @ template_nat index
            in compile_switch parse stringify (filter_type fltr) fieldName paramName fltr s)
      else s)"

definition buildSearchQuery ::
  "(string \<Rightarrow> 'j option) \<Rightarrow> ('j \<Rightarrow> string) \<Rightarrow> compile_state \<Rightarrow> QueryRequestBodyDto
     \<Rightarrow> string list \<Rightarrow> string \<Rightarrow> compile_state" where
  "buildSearchQuery parse stringify queryBuilder query allowedFields alias =
     (case q_filters query of
        None \<Rightarrow> queryBuilder
      | Some fltrs \<Rightarrow>
          forEach fltrs (compile_callback parse stringify allowedFields alias) queryBuilder)"

section \<open>SearchHelper.buildSortQuery (search-query.dto.ts)\<close>

text \<open>
  The lines of debugging output that the function sends to \<open>console.log\<close> leave the query
  builder as it is; the model is of the query builder.
\<close>

definition validSortOrders :: "string list" where
  "validSortOrders = [''asc'', ''desc'', ''ASC'', ''DESC'']"

definition buildSortQuery ::
  "query_builder \<Rightarrow> QueryRequestBodyDto \<Rightarrow> string list \<Rightarrow> string \<Rightarrow> query_builder" where
  "buildSortQuery queryBuilder query allowedSortFields alias =
     (case q_sort_by query of
        None \<Rightarrow> orderBy (alias @ ''.created_at'') ''DESC'' queryBuilder
      | Some sortBy \<Rightarrow>
          if field_accepted allowedSortFields sortBy
          then (let sortOrder =
                      (case q_sort_order query of
                         None \<Rightarrow> ''ASC''
                       | Some ord \<Rightarrow>
                           if ord \<noteq> [] \<and> array_includes validSortOrders ord
                           then toUpperCase ord else ''ASC'')
                in orderBy (alias @ ''.'' @ sortBy) sortOrder queryBuilder)
          else orderBy (alias @ ''.created_at'') ''DESC'' queryBuilder)"

section \<open>The pagination calculator (pagination.helper.ts)\<close>

text \<open>
  \<open>ConfigService\<close>: \<open>get\<close> of a key, \<open>None\<close> for a key that is not set. The values
  read here are numbers.
\<close>

type_synonym ConfigService = "string \<Rightarrow> number option"

text \<open>\<open>configService?.get(key)\<close>.\<close>

definition config_get :: "ConfigService option \<Rightarrow> string \<Rightarrow> number option" where
  "config_get configService key = (case configService of None \<Rightarrow> None | Some c \<Rightarrow> c key)"

text \<open>
  \<open>configService?.get('pagination.defaultPageSize') || 10\<close> and
  \<open>configService?.get('pagination.maxPageSize') || 100\<close>.
\<close>

definition defaultPageSize :: "ConfigService option \<Rightarrow> number" where
  "defaultPageSize configService =
     or_else (config_get configService ''pagination.defaultPageSize'') (Num 10)"

definition maxPageSize :: "ConfigService option \<Rightarrow> number" where
  "maxPageSize configService =
     or_else (config_get configService ''pagination.maxPageSize'') (Num 100)"

text \<open>
  The object that \<open>getPaginationLimits\<close> returns has the properties \<open>limit\<close>,
  \<open>offset\<close> and \<open>page\<close>; the last one is \<open>norm_page\<close> here, \<open>page\<close> being
  the property of the request.
\<close>

record PaginationLimits =
  limit :: number
  offset :: number
  norm_page :: number

definition getPaginationLimits ::
  "PaginationRequestDto \<Rightarrow> ConfigService option \<Rightarrow> PaginationLimits" where
  "getPaginationLimits paginationDto configService =
     (let page0 = ToNumber (page paginationDto);
          page1 = (if \<not> truthy page0 \<or> isNaN page0 \<or> num_lt page0 (Num 1)
                   then Num 1 else page0);
          page2 = Math_max (Num 1) (Math_floor page1);
          limit0 = or_else (per_page paginationDto) (defaultPageSize configService);
          limit1 = (if \<not> truthy limit0 \<or> isNaN limit0 \<or> num_lt limit0 (Num 1)
                    then defaultPageSize configService else limit0);
          limit2 = Math_min (Math_floor limit1) (maxPageSize configService);
          limit3 = Math_max (Num 1) limit2;
          offset' = num_mul (num_sub page2 (Num 1)) limit3
      in \<lparr>limit = limit3, offset = offset', norm_page = page2\<rparr>)"

text \<open>
  The normalization as the specification words it: a \<open>per_page\<close> that is not a number
  or is below 1 becomes the default size, and \<open>clamp(x, lo, hi)\<close> brings \<open>x\<close> down to
  \<open>hi\<close> and then up to \<open>lo\<close>.
\<close>

definition spec_perPage :: "PaginationRequestDto \<Rightarrow> ConfigService option \<Rightarrow> number" where
  "spec_perPage paginationDto configService =
     (case per_page paginationDto of
        None \<Rightarrow> defaultPageSize configService
      | Some x \<Rightarrow> if isNaN x \<or> num_lt x (Num 1) then defaultPageSize configService else x)"

definition spec_clamp :: "number \<Rightarrow> number \<Rightarrow> number \<Rightarrow> number" where
  "spec_clamp x lo hi = Math_max lo (Math_min x hi)"

text \<open>
  The object that \<open>calculateMeta\<close> returns; its properties \<open>from\<close> and \<open>to\<close>
  are \<open>cm_from\<close> and \<open>cm_to\<close> here.
\<close>

record CalculatedMeta =
  totalPages :: number
  currentPage :: number
  perPage :: number
  cm_from :: number
  cm_to :: number

definition calculateMeta :: "number \<Rightarrow> number \<Rightarrow> number \<Rightarrow> CalculatedMeta" where
  "calculateMeta total' page' limit' =
     (let totalPages' = Math_ceil (num_div total' limit');
          currentPage' = Math_max (Num 1) (Math_min page' totalPages');
          from' = (if num_gt total' (Num 0)
                   then num_add (num_mul (num_sub currentPage' (Num 1)) limit') (Num 1)
                   else Num 0);
          to' = Math_min (num_mul currentPage' limit') total'
      in \<lparr>totalPages = totalPages', currentPage = currentPage', perPage = limit',
          cm_from = from', cm_to = to'\<rparr>)"

text \<open>
  The \<open>meta\<close> of a page of results; its properties \<open>per_page\<close>, \<open>total\<close>,
  \<open>from\<close> and \<open>to\<close> carry the prefix \<open>meta_\<close> here.
\<close>

record PaginationMeta =
  current_page :: number
  last_page :: number
  meta_per_page :: number
  meta_total :: number
  meta_from :: number
  meta_to :: number

record 'row Paginated =
  data :: "'row list"
  meta :: PaginationMeta

text \<open>
  \<open>paginateWithTypeORM\<close>. \<open>getManyAndCount\<close> runs the query on the database and is a
  parameter: the rows of the page and the count of the rows that match. The function is
  \<open>async\<close>; the model is of the value that its promise resolves to.
\<close>

definition paginateWithTypeORM ::
  "(query_builder \<Rightarrow> 'row list \<times> nat) \<Rightarrow> query_builder \<Rightarrow> PaginationRequestDto
     \<Rightarrow> ConfigService option \<Rightarrow> 'row Paginated" where
  "paginateWithTypeORM getManyAndCount queryBuilder paginationDto configService =
     (let lims = getPaginationLimits paginationDto configService;
          queryBuilder' = take_rows (limit lims) (skip (offset lims) queryBuilder);
          (rows, count) = getManyAndCount queryBuilder';
          total' = Num (real count);
          totalPages' = Math_ceil (num_div total' (limit lims));
          from' = (if num_gt total' (Num 0) then num_add (offset lims) (Num 1) else Num 0);
          to' = Math_min (num_add (offset lims) (limit lims)) total'
      in \<lparr>data = rows,
          meta = \<lparr>current_page = norm_page lims, last_page = totalPages',
                   meta_per_page = limit lims, meta_total = total',
                   meta_from = from', meta_to = to'\<rparr>\<rparr>)"

text \<open>
  \<open>ResponseHelper.paginate\<close> (response-helper.ts): the \<open>meta\<close> of the response that
  it sends, from the current page, the last page, the page size and the total that it is
  given.
\<close>

definition ResponseHelper_paginate_meta ::
  "number \<Rightarrow> number \<Rightarrow> number \<Rightarrow> number \<Rightarrow> PaginationMeta" where
  "ResponseHelper_paginate_meta currentPage' lastPage perPage' total' =
     (let from' = (if num_gt total' (Num 0)
                   then num_add (num_mul (num_sub currentPage' (Num 1)) perPage') (Num 1)
                   else Num 0);
          to' = Math_min (num_mul currentPage' perPage') total'
      in \<lparr>current_page = Math_max (Num 1) currentPage',
          last_page = Math_max (Num 1) lastPage,
          meta_per_page = perPage', meta_total = total',
          meta_from = from', meta_to = to'\<rparr>)"

section \<open>Values for the examples\<close>

text \<open>A query builder on which nothing has been called yet, and an empty console.\<close>

definition new_builder :: query_builder where
  "new_builder = \<lparr>qb_wheres = [], qb_orderBy = None, qb_skip = None, qb_take = None\<rparr>"

definition new_state :: compile_state where
  "new_state = \<lparr>builder = new_builder, console = []\<rparr>"

text \<open>
  A parser for the examples: it accepts the document \<open>{}\<close>, which it returns as it is,
  and nothing else. The examples apply it to \<open>{bad\<close>, where \<open>JSON.parse\<close> does
  the same: it throws.
\<close>

definition example_parse :: "string \<Rightarrow> string option" where
  "example_parse s = (if s = ''{}'' then Some s else None)"

definition example_stringify :: "string \<Rightarrow> string" where
  "example_stringify j = j"

text \<open>
  A configuration for the examples, with a maximum page size of \<open>-1\<close> and no default
  page size.
\<close>

definition example_config :: ConfigService where
  "example_config key = (if key = ''pagination.maxPageSize'' then Some (Num (- 1)) else None)"

text \<open>Another one, with a maximum page size of \<open>2.5\<close>.\<close>

definition example_config_fraction :: ConfigService where
  "example_config_fraction key =
     (if key = ''pagination.maxPageSize'' then Some (Num (5 / 2)) else None)"

text \<open>A database for the examples: no row on the requested page, 12 rows that match.\<close>

definition example_getManyAndCount :: "query_builder \<Rightarrow> unit list \<times> nat" where
  "example_getManyAndCount qb = ([], 12)"

text \<open>
  The value list as the specification words it: split on commas, each piece trimmed, the
  empty pieces dropped.
\<close>

definition spec_value_list :: "string \<Rightarrow> string list" where
  "spec_value_list v = filter (\<lambda>piece. piece \<noteq> []) (map trim (split (CHR '','') v))"

section \<open>Properties of the validator\<close>

lemma errors_push_frame [simp]:
  "vs_filters (errors_push m s) = vs_filters s"
  "vs_allowedFields (errors_push m s) = vs_allowedFields s"
  "vs_errors (errors_push m s) = vs_errors s @ [m]"
  by (simp_all add: errors_push_def)

lemma validate_switch_frame:
  "vs_filters (validate_switch t i f s) = vs_filters s \<and>
   vs_allowedFields (validate_switch t i f s) = vs_allowedFields s"
  by (cases t)
     (simp_all add: require_search_query_def require_start_end_def require_values_list_def)

lemma validate_callback_frame:
  "vs_filters (validate_callback f i s) = vs_filters s \<and>
   vs_allowedFields (validate_callback f i s) = vs_allowedFields s"
  by (simp add: validate_callback_def Let_def validate_switch_frame)

text \<open>The \<open>switch\<close> only appends, and what it appends does not depend on the state.\<close>

lemma validate_switch_errors:
  "vs_errors (validate_switch t i f s) =
     vs_errors s @ vs_errors (validate_switch t i f (s\<lparr>vs_errors := []\<rparr>))"
  by (cases t)
     (simp_all add: require_search_query_def require_start_end_def require_values_list_def)

lemma validate_switch_any_state:
  "vs_errors (validate_switch t i f (s\<lparr>vs_errors := []\<rparr>)) =
   vs_errors (validate_switch t i f
     \<lparr>vs_filters = ([] :: PaginationFilterDto list), vs_allowedFields = al,
      vs_errors = []\<rparr>)"
  by (cases t)
     (simp_all add: require_search_query_def require_start_end_def require_values_list_def)

lemma validate_callback_errors:
  "vs_errors (validate_callback f i s) = vs_errors s @ filter_errors (vs_allowedFields s) i f"
  unfolding filter_errors_def validate_callback_def Let_def
  apply (subst validate_switch_errors)
  apply (subst (2) validate_switch_errors)
  apply (simp add: validate_switch_any_state [where al = "vs_allowedFields s"])
  done

text \<open>The loop: the messages of the filters, one filter after the other.\<close>

lemma forEach_from_validate:
  "forEach_from i fs validate_callback s =
     s\<lparr>vs_errors := vs_errors s @
        concat (map (\<lambda>(k, f). filter_errors (vs_allowedFields s) k f)
                  (zip [i..<i + length fs] fs))\<rparr>"
proof (induction fs arbitrary: i s)
  case Nil
  then show ?case by simp
next
  case (Cons f fs)
  have step: "validate_callback f i s =
      s\<lparr>vs_errors := vs_errors s @ filter_errors (vs_allowedFields s) i f\<rparr>"
    using validate_callback_frame [of f i s] validate_callback_errors [of f i s]
    by (intro validate_state.equality) simp_all
  have idx: "[i..<i + length (f # fs)] = i # [Suc i..<Suc i + length fs]"
    by (simp add: upt_rec)
  show ?case
    by (simp only: forEach_from.simps Cons.IH step idx) simp
qed

lemma validateFilters_concat:
  "validateFilters fs al =
     concat (map (\<lambda>(k, f). filter_errors al k f) (zip [0..<length fs] fs))"
  by (simp add: validateFilters_def validateFilters_run_def forEach_def forEach_from_validate)

lemma filter_errors_subset:
  assumes "i < length fs"
  shows "set (filter_errors al i (fs ! i)) \<subseteq> set (validateFilters fs al)"
proof -
  have "(i, fs ! i) \<in> set (zip [0..<length fs] fs)"
    using assms by (auto simp: set_zip intro!: exI [of _ i])
  then show ?thesis
    unfolding validateFilters_concat by fastforce
qed

text \<open>The messages of one filter, by the class of its operator.\<close>

lemma filter_errors_unfold:
  "filter_errors al i f =
     (if search_by f \<in> set al then [] else [msg_not_allowed i f]) @
     (case arity_class (filter_type f) of
        None \<Rightarrow> [msg_unknown_type i f]
      | Some SingleValue \<Rightarrow>
          if truthy_str (search_query f) then [] else [msg_search_query i f]
      | Some Range \<Rightarrow>
          if truthy_str (start_value f) \<and> truthy_str (end_value f) then []
          else [msg_start_end i f]
      | Some ValueList \<Rightarrow>
          if truthy_str (values_list f) then [] else [msg_values_list i f]
      | Some NoOperand \<Rightarrow> [])"
  unfolding filter_errors_def validate_callback_def Let_def
  by (cases "filter_type f")
     (simp_all add: array_includes_def require_search_query_def require_start_end_def
        require_values_list_def)

text \<open>
  The decimal digits of a number denote it, so two positions with the same digits are the
  same, and no digit is a colon: the messages of one filter are told from those of another
  by the position they begin with.
\<close>

lemma digit_cases: "d < 10 \<Longrightarrow> d \<in> {0, 1, 2, 3, 4, 5, 6, 7, 8, 9::nat}"
  by auto

lemma digit_value_digit_char: "d < 10 \<Longrightarrow> digit_value (digit_char d) = d"
  using digit_cases [of d] by (auto simp: digit_value_def digit_char_def)

lemma digit_char_not_colon: "d < 10 \<Longrightarrow> digit_char d \<noteq> CHR '':''"
  using digit_cases [of d] by (auto simp: digit_char_def)

lemma decimal_value_template_nat: "decimal_value (template_nat n) = n"
proof (induction n rule: template_nat.induct)
  case (1 n)
  show ?case
  proof (cases "n < 10")
    case True
    then show ?thesis
      by (simp add: template_nat.simps [of n] decimal_value_def digit_value_digit_char)
  next
    case False
    with 1 have "decimal_value (template_nat (n div 10)) = n div 10" by simp
    with False show ?thesis
      by (simp add: template_nat.simps [of n] decimal_value_def digit_value_digit_char)
  qed
qed

lemma template_nat_inj: "template_nat a = template_nat b \<Longrightarrow> a = b"
  by (metis decimal_value_template_nat)

lemma template_nat_no_colon: "CHR '':'' \<notin> set (template_nat n)"
proof (induction n rule: template_nat.induct)
  case (1 n)
  show ?case
  proof (cases "n < 10")
    case True
    then show ?thesis
      using digit_char_not_colon [of n] by (simp add: template_nat.simps [of n])
  next
    case False
    with 1 have "CHR '':'' \<notin> set (template_nat (n div 10))" by simp
    with False show ?thesis
      using digit_char_not_colon [of "n mod 10"] by (simp add: template_nat.simps [of n])
  qed
qed

lemma first_separator:
  assumes "c \<notin> set xs" and "c \<notin> set ys" and "xs @ c # r1 = ys @ c # r2"
  shows "xs = ys"
  using assms
proof (induction xs arbitrary: ys)
  case Nil
  then show ?case by (cases ys) auto
next
  case (Cons x xs)
  then show ?case by (cases ys) auto
qed

lemma position_prefix_inj:
  assumes "take (length (position_prefix i)) (position_prefix j @ r) = position_prefix i"
  shows "i = j"
proof -
  from assms obtain r' where "position_prefix j @ r = position_prefix i @ r'"
    by (metis append_take_drop_id)
  then have "template_nat (j + 1) @ CHR '':'' # (CHR '' '' # r)
           = template_nat (i + 1) @ CHR '':'' # (CHR '' '' # r')"
    by (simp add: position_prefix_def)
  then have "template_nat (j + 1) = template_nat (i + 1)"
    by (rule first_separator [OF template_nat_no_colon template_nat_no_colon])
  then show ?thesis
    using template_nat_inj by fastforce
qed

lemma filter_errors_prefixed:
  "m \<in> set (filter_errors al k f) \<Longrightarrow> \<exists>r. m = position_prefix k @ r"
  by (auto simp: filter_errors_unfold position_prefix_def msg_not_allowed_def
        msg_unknown_type_def msg_search_query_def msg_start_end_def msg_values_list_def
        split: if_splits option.splits arity.splits)

lemma messages_at_filter_errors:
  "messages_at i (filter_errors al k f) = (if k = i then filter_errors al k f else [])"
proof (cases "k = i")
  case True
  have "\<forall>m \<in> set (filter_errors al i f).
          take (length (position_prefix i)) m = position_prefix i"
    using filter_errors_prefixed [of _ al i f] by fastforce
  with True show ?thesis
    by (simp add: messages_at_def)
next
  case False
  have "\<forall>m \<in> set (filter_errors al k f).
          take (length (position_prefix i)) m \<noteq> position_prefix i"
  proof
    fix m assume "m \<in> set (filter_errors al k f)"
    then obtain r where "m = position_prefix k @ r"
      using filter_errors_prefixed by blast
    with False show "take (length (position_prefix i)) m \<noteq> position_prefix i"
      using position_prefix_inj [of i k r] by auto
  qed
  with False show ?thesis
    by (simp add: messages_at_def)
qed

lemma messages_at_concat:
  "messages_at i (concat xss) = concat (map (messages_at i) xss)"
  by (induction xss) (simp_all add: messages_at_def)

lemma messages_at_from:
  "concat (map (messages_at i) (map (\<lambda>(k, f). filter_errors al k f) (zip [a..<a + length fs] fs)))
   = (if a \<le> i \<and> i < a + length fs then filter_errors al i (fs ! (i - a)) else [])"
proof (induction fs arbitrary: a)
  case Nil
  then show ?case by auto
next
  case (Cons f fs)
  have idx: "[a..<a + length (f # fs)] = a # [Suc a..<Suc a + length fs]"
    by (simp add: upt_rec)
  show ?case
    unfolding idx
    using Cons.IH [of "Suc a"]
    by (auto simp: messages_at_filter_errors Suc_diff_le)
qed

lemma messages_at_validateFilters:
  "i < length fs \<Longrightarrow> messages_at i (validateFilters fs al) = filter_errors al i (fs ! i)"
  using messages_at_from [of i al 0 fs]
  by (simp add: validateFilters_concat messages_at_concat)

text \<open>
  On a list of descriptors the run ends in a state whose \<open>errors\<close> is the list that is
  returned, and in which the two arguments are the ones that were passed.
\<close>

lemma validateFilters_run_state:
  "validateFilters_run fltrs allowedFields =
     \<lparr>vs_filters = fltrs, vs_allowedFields = allowedFields,
      vs_errors = validateFilters fltrs allowedFields\<rparr>"
  by (simp add: validateFilters_def validateFilters_run_def forEach_def forEach_from_validate)








text \<open>
  Claim C6. The list that the validator returns is made of the messages of the filters, in
  the order of the filters. For a filter at index \<open>i\<close> (counted from 0) whose field is
  not among the allowed fields and whose operands satisfy the arity of its operator, the
  messages of that filter are exactly one, the one that names the position \<open>i + 1\<close> and
  the field; and it is the only message of the returned list that begins with that
  position.
\<close>

theorem validateFilters_disallowed_field_single_error:
  assumes "i < length fltrs"
    and "search_by (fltrs ! i) \<notin> set allowedFields"
    and "arity_satisfied (fltrs ! i)"
  shows "validateFilters fltrs allowedFields =
           concat (map (\<lambda>(k, f). filter_errors allowedFields k f)
                     (zip [0..<length fltrs] fltrs))
         \<and> filter_errors allowedFields i (fltrs ! i) =
             [''Filter '' @ template_nat (i + 1) @ '': '' @ [apostrophe]
                @ search_by (fltrs ! i) @ [apostrophe] @ '' is not an allowed search field'']
         \<and> messages_at i (validateFilters fltrs allowedFields) =
             [''Filter '' @ template_nat (i + 1) @ '': '' @ [apostrophe]
                @ search_by (fltrs ! i) @ [apostrophe] @ '' is not an allowed search field'']"
proof -
  let ?f = "fltrs ! i"
  from assms(3) have "(case arity_class (filter_type ?f) of
        None \<Rightarrow> [msg_unknown_type i ?f]
      | Some SingleValue \<Rightarrow>
          if truthy_str (search_query ?f) then [] else [msg_search_query i ?f]
      | Some Range \<Rightarrow>
          if truthy_str (start_value ?f) \<and> truthy_str (end_value ?f) then []
          else [msg_start_end i ?f]
      | Some ValueList \<Rightarrow>
          if truthy_str (values_list ?f) then [] else [msg_values_list i ?f]
      | Some NoOperand \<Rightarrow> []) = []"
    by (auto simp: arity_satisfied_def split: option.splits arity.splits)
  with assms(2) have one: "filter_errors allowedFields i ?f =
      [''Filter '' @ template_nat (i + 1) @ '': '' @ [apostrophe]
         @ search_by ?f @ [apostrophe] @ '' is not an allowed search field'']"
    by (simp add: filter_errors_unfold msg_not_allowed_def)
  from assms(1) have "messages_at i (validateFilters fltrs allowedFields) =
      filter_errors allowedFields i ?f"
    by (rule messages_at_validateFilters)
  with one show ?thesis
    by (simp add: validateFilters_concat)
qed

text \<open>
  Two filters, the second on a field that is not allowed, with both bounds of its range:
  the only message is the one for position 2.
\<close>

theorem validateFilters_disallowed_field_single_error_witness:
  "(1::nat) < length
       [\<lparr>search_by = ''name'', filter_type = EQUAL, search_query = Some ''admin'',
         start_value = None, end_value = None, values_list = None\<rparr>,
        \<lparr>search_by = ''password'', filter_type = BETWEEN, search_query = None,
         start_value = Some ''a'', end_value = Some ''f'', values_list = None\<rparr>]
   \<and> ''password'' \<notin> set [''name'', ''email'']
   \<and> arity_satisfied
       \<lparr>search_by = ''password'', filter_type = BETWEEN, search_query = None,
        start_value = Some ''a'', end_value = Some ''f'', values_list = None\<rparr>
   \<and> validateFilters
       [\<lparr>search_by = ''name'', filter_type = EQUAL, search_query = Some ''admin'',
         start_value = None, end_value = None, values_list = None\<rparr>,
        \<lparr>search_by = ''password'', filter_type = BETWEEN, search_query = None,
         start_value = Some ''a'', end_value = Some ''f'', values_list = None\<rparr>]
       [''name'', ''email'']
     = [''Filter 2: '' @ [apostrophe] @ ''password'' @ [apostrophe]
          @ '' is not an allowed search field'']"
  using validateFilters_disallowed_field_single_error
    [of 1 "[\<lparr>search_by = ''name'', filter_type = EQUAL, search_query = Some ''admin'',
       start_value = None, end_value = None, values_list = None\<rparr>,
      \<lparr>search_by = ''password'', filter_type = BETWEEN, search_query = None,
       start_value = Some ''a'', end_value = Some ''f'', values_list = None\<rparr>]"
       "[''name'', ''email'']"]
  by (simp add: arity_satisfied_def truthy_str_def filter_errors_unfold template_nat.simps
        digit_char_def upt_rec)

text \<open>
  Claim C3 as it is stated does not hold: an operand that the operator does not require
  is not looked at. An \<open>equal\<close> filter that carries a \<open>values_list\<close> beside its
  \<open>search_query\<close> has operands other than the required ones, and the validator
  returns no message.
\<close>

theorem validateFilters_extra_operand_passes:
  "\<not> spec_operands_exact
       \<lparr>search_by = ''name'', filter_type = EQUAL, search_query = Some ''admin'',
        start_value = None, end_value = None, values_list = Some ''a,b''\<rparr>
   \<and> validateFilters
       [\<lparr>search_by = ''name'', filter_type = EQUAL, search_query = Some ''admin'',
         start_value = None, end_value = None, values_list = Some ''a,b''\<rparr>]
       [''name''] = []"
  by (simp add: spec_operands_exact_def truthy_str_def validateFilters_concat
        filter_errors_unfold)

text \<open>
  Claim C3, amended. For the filter at position \<open>i\<close>: when a required operand of the
  class of its operator is missing (absent or empty), or when the operator is not one of
  the enum, the list that the validator returns contains the message of that class for
  position \<open>i + 1\<close>. Operands that are not required are not tested: a filter on an
  allowed field whose required operands are there has no message, whatever else it
  carries.
\<close>

theorem validateFilters_missing_operand_reported:
  assumes "i < length fltrs"
  shows "(\<not> arity_satisfied (fltrs ! i) \<longrightarrow>
            arity_message i (fltrs ! i) \<in> set (validateFilters fltrs allowedFields))
       \<and> (arity_satisfied (fltrs ! i) \<and> search_by (fltrs ! i) \<in> set allowedFields \<longrightarrow>
            filter_errors allowedFields i (fltrs ! i) = [])"
proof (intro conjI impI)
  let ?f = "fltrs ! i"
  assume "\<not> arity_satisfied ?f"
  then have "arity_message i ?f \<in> set (filter_errors allowedFields i ?f)"
    by (auto simp: arity_satisfied_def arity_message_def filter_errors_unfold
          split: option.splits arity.splits)
  with filter_errors_subset [OF assms, of allowedFields]
  show "arity_message i ?f \<in> set (validateFilters fltrs allowedFields)"
    by blast
next
  let ?f = "fltrs ! i"
  assume "arity_satisfied ?f \<and> search_by ?f \<in> set allowedFields"
  then show "filter_errors allowedFields i ?f = []"
    by (auto simp: arity_satisfied_def filter_errors_unfold
          split: option.splits arity.splits)
qed

text \<open>
  An \<open>in\<close> filter with an empty \<open>values_list\<close> is reported; an \<open>is_null\<close>
  filter that carries a \<open>search_query\<close> is not.
\<close>

theorem validateFilters_missing_operand_reported_witness:
  "\<not> arity_satisfied
       \<lparr>search_by = ''name'', filter_type = IN, search_query = None,
        start_value = None, end_value = None, values_list = Some []\<rparr>
   \<and> (''Filter 1: '' @ [apostrophe] @ ''values_list'' @ [apostrophe]
        @ '' is required for in filter'')
     \<in> set (validateFilters
         [\<lparr>search_by = ''name'', filter_type = IN, search_query = None,
           start_value = None, end_value = None, values_list = Some []\<rparr>] [''name''])
   \<and> arity_satisfied
       \<lparr>search_by = ''name'', filter_type = IS_NULL, search_query = Some ''extra'',
        start_value = None, end_value = None, values_list = None\<rparr>
   \<and> ''name'' \<in> set [''name'']
   \<and> filter_errors [''name''] 0
        \<lparr>search_by = ''name'', filter_type = IS_NULL, search_query = Some ''extra'',
         start_value = None, end_value = None, values_list = None\<rparr> = []"
  using validateFilters_missing_operand_reported
    [of 0 "[\<lparr>search_by = ''name'', filter_type = IN, search_query = None,
           start_value = None, end_value = None, values_list = Some []\<rparr>]" "[''name'']"]
    validateFilters_missing_operand_reported
    [of 0 "[\<lparr>search_by = ''name'', filter_type = IS_NULL, search_query = Some ''extra'',
         start_value = None, end_value = None, values_list = None\<rparr>]" "[''name'']"]
  by (simp add: arity_satisfied_def arity_message_def truthy_str_def msg_values_list_def
       template_nat.simps digit_char_def)

section \<open>Properties of the predicate compiler\<close>

lemma andWhere_simps [simp]:
  "builder (andWhere c p s) = qb_andWhere c p (builder s)"
  "console (andWhere c p s) = console s"
  by (simp_all add: andWhere_def)

lemma console_error_simps [simp]:
  "builder (console_error m s) = builder s"
  "console (console_error m s) = console s @ [(ERROR, m)]"
  by (simp_all add: console_error_def)

lemma console_warn_simps [simp]:
  "builder (console_warn m s) = builder s"
  "console (console_warn m s) = console s @ [(WARN, m)]"
  by (simp_all add: console_warn_def)

text \<open>A loop over a list in two parts continues, on the second, with the next index.\<close>

lemma forEach_from_append:
  "forEach_from i (xs @ ys) f s = forEach_from (i + length xs) ys f (forEach_from i xs f s)"
  by (induction xs arbitrary: i s) simp_all

text \<open>\<open>split\<close> gives one piece more than there are separators.\<close>

lemma length_split:
  "length (split sep v) = Suc (length (filter (\<lambda>c. c = sep) v))"
  by (induction v) (auto split: list.splits)

text \<open>
  Claim C2 as it is stated does not hold: no piece is dropped. The value list \<open>a,,b\<close>
  of an \<open>in\<close> filter is bound as the three pieces \<open>a\<close>, the empty string and
  \<open>b\<close>, where the specification has the two pieces \<open>a\<close> and \<open>b\<close>. And nothing
  is bound for a filter on a field that is not allowed, nor for an empty value list.
\<close>

theorem list_filter_keeps_empty_entries:
  "compile_callback example_parse example_stringify [''role''] ''user''
     \<lparr>search_by = ''role'', filter_type = IN, search_query = None,
      start_value = None, end_value = None, values_list = Some ''a,,b''\<rparr> 0 new_state
   = andWhere ''user.role IN (:...param_0)'' [(''param_0'', PArray [''a'', [], ''b''])] new_state
   \<and> spec_value_list ''a,,b'' = [''a'', ''b'']
   \<and> compile_callback example_parse example_stringify [''name''] ''user''
     \<lparr>search_by = ''role'', filter_type = IN, search_query = None,
      start_value = None, end_value = None, values_list = Some ''a,b''\<rparr> 0 new_state
   = new_state
   \<and> compile_callback example_parse example_stringify [''role''] ''user''
     \<lparr>search_by = ''role'', filter_type = IN, search_query = None,
      start_value = None, end_value = None, values_list = Some []\<rparr> 0 new_state
   = new_state"
  by (simp add: compile_callback_def field_accepted_def array_includes_def trim_def
        is_js_space_def template_nat.simps digit_char_def bind_values_list_def
        spec_value_list_def)

text \<open>
  Claim C2, amended. For a filter with operator \<open>in\<close>, \<open>not_in\<close> or
  \<open>array_overlap\<close> on a field that passes the test of the compiler and with a
  \<open>values_list\<close> that is not empty, the compiler adds one condition whose parameter
  \<open>param_<index>\<close> is bound to the pieces of \<open>values_list\<close> between the commas,
  each trimmed, all of them and in order: one more than there are commas, the empty ones
  included. The value list \<open>a, b ,c\<close> gives \<open>a\<close>, \<open>b\<close>, \<open>c\<close>.
\<close>

theorem list_filter_binds_split_trimmed:
  assumes "field_accepted allowedFields (search_by fltr)"
    and "filter_type fltr = IN \<or> filter_type fltr = NOT_IN \<or> filter_type fltr = ARRAY_OVERLAP"
    and "values_list fltr = Some v" and "v \<noteq> []"
  shows "(\<exists>cond. compile_callback parse stringify allowedFields alias fltr index s =
            andWhere cond
              [(''param_'' @ template_nat index, PArray (map trim (split (CHR '','') v)))] s)
       \<and> length (map trim (split (CHR '','') v)) = Suc (length (filter (\<lambda>c. c = CHR '','') v))
       \<and> map trim (split (CHR '','') ''a, b ,c'') = [''a'', ''b'', ''c'']"
proof (intro conjI)
  from assms show "\<exists>cond. compile_callback parse stringify allowedFields alias fltr index s =
            andWhere cond
              [(''param_'' @ template_nat index, PArray (map trim (split (CHR '','') v)))] s"
    by (auto simp: compile_callback_def bind_values_list_def Let_def)
next
  show "length (map trim (split (CHR '','') v)) = Suc (length (filter (\<lambda>c. c = CHR '','') v))"
    by (simp add: length_split)
next
  show "map trim (split (CHR '','') ''a, b ,c'') = [''a'', ''b'', ''c'']"
    by (simp add: trim_def is_js_space_def)
qed

text \<open>A \<open>not_in\<close> filter at index 3 with the value list \<open>a, b ,c\<close>.\<close>

theorem list_filter_binds_split_trimmed_witness:
  "field_accepted [''role''] ''role''
   \<and> compile_callback example_parse example_stringify [''role''] ''user''
       \<lparr>search_by = ''role'', filter_type = NOT_IN, search_query = None,
        start_value = None, end_value = None, values_list = Some ''a, b ,c''\<rparr> 3 new_state
     = andWhere ''user.role NOT IN (:...param_3)''
         [(''param_3'', PArray [''a'', ''b'', ''c''])] new_state"
  using list_filter_binds_split_trimmed
    [of "[''role'']" "\<lparr>search_by = ''role'', filter_type = NOT_IN, search_query = None,
      start_value = None, end_value = None, values_list = Some ''a, b ,c''\<rparr>" "''a, b ,c''"
      example_parse example_stringify "''user''" 3 new_state]
  by (simp add: compile_callback_def field_accepted_def array_includes_def trim_def
        is_js_space_def template_nat.simps digit_char_def bind_values_list_def)

text \<open>
  Claim C7 as it is stated does not hold. With a field named \<open>null\<close> among the
  allowed fields, a \<open>json_contains\<close> filter on it whose value \<open>{bad\<close> does not
  parse passes the validator, and the compiler does nothing with it: no condition, and no
  line on the console either. The test of the compiler on the field refuses the names
  \<open>NaN\<close>, \<open>undefined\<close> and \<open>null\<close> and the blank names, allowed or not, before
  the value is looked at.
\<close>

theorem json_filter_without_diagnostic:
  "validateFilters
     [\<lparr>search_by = ''null'', filter_type = JSON_CONTAINS, search_query = Some ''{bad'',
       start_value = None, end_value = None, values_list = None\<rparr>] [''null''] = []
   \<and> example_parse ''{bad'' = None
   \<and> compile_callback example_parse example_stringify [''null''] ''user''
       \<lparr>search_by = ''null'', filter_type = JSON_CONTAINS, search_query = Some ''{bad'',
        start_value = None, end_value = None, values_list = None\<rparr> 0 new_state
     = new_state"
  by (simp add: validateFilters_concat filter_errors_unfold truthy_str_def
        example_parse_def compile_callback_def field_accepted_def)

text \<open>
  Claim C7, amended. For a \<open>json_contains\<close> or \<open>json_contained\<close> filter on an
  allowed field whose name is not blank and none of \<open>NaN\<close>, \<open>undefined\<close>,
  \<open>null\<close>, with a value that is not empty (such a filter passes the validator), when
  the value does not parse: the callback writes the one line
  \<open>Invalid JSON in filter: <value>\<close> with \<open>console.error\<close> and leaves the query
  builder as it was; and the loop goes on: the filters before it are compiled, then the
  line is written, then the filters after it are compiled with their own indices.
\<close>

theorem json_filter_parse_failure_skipped:
  assumes "field_accepted allowedFields (search_by fltr)"
    and "filter_type fltr = JSON_CONTAINS \<or> filter_type fltr = JSON_CONTAINED"
    and "search_query fltr = Some v" and "v \<noteq> []"
    and "parse v = None"
    and "q_filters query = Some (before @ fltr # after)"
  shows "filter_errors allowedFields index fltr = []
       \<and> compile_callback parse stringify allowedFields alias fltr index s =
           console_error (''Invalid JSON in filter: '' @ v) s
       \<and> builder (compile_callback parse stringify allowedFields alias fltr index s) = builder s
       \<and> console (compile_callback parse stringify allowedFields alias fltr index s) =
           console s @ [(ERROR, ''Invalid JSON in filter: '' @ v)]
       \<and> buildSearchQuery parse stringify s query allowedFields alias =
           forEach_from (Suc (length before)) after
             (compile_callback parse stringify allowedFields alias)
             (console_error (''Invalid JSON in filter: '' @ v)
                (forEach before (compile_callback parse stringify allowedFields alias) s))"
proof -
  have cb: "compile_callback parse stringify allowedFields alias fltr k t =
      console_error (''Invalid JSON in filter: '' @ v) t"
    for k t
    using assms(1-5)
    by (auto simp: compile_callback_def bind_json_def Let_def str_or_def template_str_def)
  have ok: "filter_errors allowedFields index fltr = []"
    using assms(1-4)
    by (auto simp: filter_errors_unfold field_accepted_def array_includes_def truthy_str_def)
  have "buildSearchQuery parse stringify s query allowedFields alias =
      forEach_from 0 (before @ fltr # after)
        (compile_callback parse stringify allowedFields alias) s"
    using assms(6) by (simp add: buildSearchQuery_def forEach_def)
  also have "\<dots> = forEach_from (Suc (length before)) after
             (compile_callback parse stringify allowedFields alias)
             (console_error (''Invalid JSON in filter: '' @ v)
                (forEach before (compile_callback parse stringify allowedFields alias) s))"
    by (simp add: forEach_from_append forEach_def cb)
  finally show ?thesis
    by (simp add: cb ok)
qed

text \<open>
  A \<open>json_contained\<close> filter with the value \<open>{bad\<close>, followed by an \<open>equal\<close>
  filter: one line on the console, and the condition of the second filter.
\<close>

theorem json_filter_parse_failure_skipped_witness:
  "field_accepted [''name'', ''settings''] ''settings''
   \<and> example_parse ''{bad'' = None
   \<and> buildSearchQuery example_parse example_stringify new_state
       \<lparr>q_search = None, q_sort_by = None, q_sort_order = None,
        q_filters = Some
          [\<lparr>search_by = ''settings'', filter_type = JSON_CONTAINED,
            search_query = Some ''{bad'', start_value = None, end_value = None,
            values_list = None\<rparr>,
           \<lparr>search_by = ''name'', filter_type = EQUAL, search_query = Some ''admin'',
            start_value = None, end_value = None, values_list = None\<rparr>]\<rparr>
       [''name'', ''settings''] ''user''
     = \<lparr>builder = new_builder\<lparr>qb_wheres :=
           [(''user.name = :param_1'', [(''param_1'', PString ''admin'')])]\<rparr>,
        console = [(ERROR, ''Invalid JSON in filter: {bad'')]\<rparr>"
  using json_filter_parse_failure_skipped
    [of "[''name'', ''settings'']"
        "\<lparr>search_by = ''settings'', filter_type = JSON_CONTAINED, search_query = Some ''{bad'',
          start_value = None, end_value = None, values_list = None\<rparr>"
        "''{bad''"
        example_parse
        "\<lparr>q_search = None, q_sort_by = None, q_sort_order = None,
          q_filters = Some
            [\<lparr>search_by = ''settings'', filter_type = JSON_CONTAINED,
              search_query = Some ''{bad'', start_value = None, end_value = None,
              values_list = None\<rparr>,
             \<lparr>search_by = ''name'', filter_type = EQUAL, search_query = Some ''admin'',
              start_value = None, end_value = None, values_list = None\<rparr>]\<rparr>"
        "[]"
        "[\<lparr>search_by = ''name'', filter_type = EQUAL, search_query = Some ''admin'',
              start_value = None, end_value = None, values_list = None\<rparr>]"
        0 example_stringify "''user''" new_state]
  by (simp add: example_parse_def field_accepted_def array_includes_def trim_def
        is_js_space_def forEach_def compile_callback_def template_nat.simps digit_char_def
        param_of_def new_state_def andWhere_def qb_andWhere_def
        console_error_def new_builder_def Let_def)

text \<open>
  Claim C8 as it is stated does not hold. With a field named \<open>null\<close> among the
  allowed fields, a \<open>json_extract\<close> filter on it passes the validator, and the
  compiler does nothing with it: no condition and no line on the console. The test of the
  compiler on the field refuses the names \<open>NaN\<close>, \<open>undefined\<close> and \<open>null\<close>
  and the blank names, allowed or not.
\<close>

theorem json_extract_silent_on_sentinel_field:
  "validateFilters
     [\<lparr>search_by = ''null'', filter_type = JSON_EXTRACT, search_query = Some ''a'',
       start_value = None, end_value = None, values_list = None\<rparr>] [''null''] = []
   \<and> compile_callback example_parse example_stringify [''null''] ''user''
       \<lparr>search_by = ''null'', filter_type = JSON_EXTRACT, search_query = Some ''a'',
        start_value = None, end_value = None, values_list = None\<rparr> 0 new_state
     = new_state"
  by (simp add: validateFilters_concat filter_errors_unfold truthy_str_def
        compile_callback_def field_accepted_def)

text \<open>
  Claim C8, amended. For a \<open>json_extract\<close> or \<open>json_extract_text\<close> filter on an
  allowed field that passes the test of the compiler (an allowed field that is not blank
  and none of \<open>NaN\<close>, \<open>undefined\<close>, \<open>null\<close>), the compiler writes the line
  \<open>JSON path extraction (...) not fully implemented. Needs database-specific handling.\<close>
  with \<open>console.warn\<close> and leaves the query builder as it was; and the validator
  treats the filter as one of a single-value operator: no message when
  \<open>search_query\<close> is there, the message that it is required otherwise.
\<close>

theorem json_extract_warns_without_predicate:
  assumes "field_accepted allowedFields (search_by fltr)"
    and "filter_type fltr = JSON_EXTRACT \<or> filter_type fltr = JSON_EXTRACT_TEXT"
  shows "compile_callback parse stringify allowedFields alias fltr index s =
           console_warn (''JSON path extraction ('' @ FilterType_value (filter_type fltr)
             @ '') not fully implemented. Needs database-specific handling.'') s
       \<and> builder (compile_callback parse stringify allowedFields alias fltr index s) = builder s
       \<and> filter_errors allowedFields index fltr =
           (if truthy_str (search_query fltr) then [] else [msg_search_query index fltr])"
  using assms
  by (auto simp: compile_callback_def Let_def filter_errors_unfold field_accepted_def
        array_includes_def)

text \<open>A \<open>json_extract_text\<close> filter on the allowed field \<open>settings\<close>.\<close>

theorem json_extract_warns_without_predicate_witness:
  "field_accepted [''settings''] ''settings''
   \<and> compile_callback example_parse example_stringify [''settings''] ''user''
       \<lparr>search_by = ''settings'', filter_type = JSON_EXTRACT_TEXT, search_query = Some ''a'',
        start_value = None, end_value = None, values_list = None\<rparr> 0 new_state
     = \<lparr>builder = new_builder,
        console = [(WARN, ''JSON path extraction (json_extract_text) not fully implemented. Needs database-specific handling.'')]\<rparr>
   \<and> filter_errors [''settings''] 0
       \<lparr>search_by = ''settings'', filter_type = JSON_EXTRACT_TEXT, search_query = Some ''a'',
        start_value = None, end_value = None, values_list = None\<rparr> = []"
  using json_extract_warns_without_predicate
    [of "[''settings'']"
        "\<lparr>search_by = ''settings'', filter_type = JSON_EXTRACT_TEXT, search_query = Some ''a'',
        start_value = None, end_value = None, values_list = None\<rparr>"
        example_parse example_stringify "''user''" 0 new_state]
  by (simp add: field_accepted_def array_includes_def trim_def is_js_space_def
        truthy_str_def console_warn_def new_state_def)

section \<open>Properties of the sort compiler\<close>

lemma toUpperCase_valid:
  "toUpperCase ''asc'' = ''ASC''" "toUpperCase ''desc'' = ''DESC''"
  "toUpperCase ''ASC'' = ''ASC''" "toUpperCase ''DESC'' = ''DESC''"
  by code_simp+

text \<open>
  Claim C5 as it is stated does not hold: the sort order is compared with the four
  spellings \<open>asc\<close>, \<open>desc\<close>, \<open>ASC\<close>, \<open>DESC\<close>, not without regard to case.
  \<open>Desc\<close> is a casing of \<open>desc\<close>, and with it the order is ascending. And a sort
  field made of a space, which is not empty, is not used even when it is allowed.
\<close>

theorem sort_order_mixed_case_is_ascending:
  "toUpperCase ''Desc'' = ''DESC''
   \<and> buildSortQuery new_builder
       \<lparr>q_search = None, q_sort_by = Some ''name'', q_sort_order = Some ''Desc'',
        q_filters = None\<rparr> [''name''] ''user''
     = orderBy ''user.name'' ''ASC'' new_builder
   \<and> buildSortQuery new_builder
       \<lparr>q_search = None, q_sort_by = Some '' '', q_sort_order = Some ''asc'',
        q_filters = None\<rparr> ['' ''] ''user''
     = orderBy ''user.created_at'' ''DESC'' new_builder"
proof (intro conjI)
  show "toUpperCase ''Desc'' = ''DESC''" by code_simp
  show "buildSortQuery new_builder
       \<lparr>q_search = None, q_sort_by = Some ''name'', q_sort_order = Some ''Desc'',
        q_filters = None\<rparr> [''name''] ''user''
     = orderBy ''user.name'' ''ASC'' new_builder"
    by (simp add: buildSortQuery_def field_accepted_def array_includes_def trim_def
          is_js_space_def validSortOrders_def)
  show "buildSortQuery new_builder
       \<lparr>q_search = None, q_sort_by = Some '' '', q_sort_order = Some ''asc'',
        q_filters = None\<rparr> ['' ''] ''user''
     = orderBy ''user.created_at'' ''DESC'' new_builder"
    by (simp add: buildSortQuery_def field_accepted_def array_includes_def trim_def
          is_js_space_def)
qed

text \<open>
  Claim C5, amended. When the sort field is there, is not blank (not empty once trimmed),
  is none of \<open>NaN\<close>, \<open>undefined\<close>, \<open>null\<close> and is among the allowed sort fields,
  the query is ordered by that field, descending when the sort order is exactly
  \<open>desc\<close> or \<open>DESC\<close> and ascending otherwise: for \<open>asc\<close>, \<open>ASC\<close>, an absent
  order and any other string, the other casings of \<open>desc\<close> included. For an absent
  sort field and for one that fails one of these tests, the query is ordered by
  \<open>created_at\<close>, descending. The function has no failing branch.
\<close>

theorem buildSortQuery_field_and_order:
  "(q_sort_by query = Some field \<and> field_accepted allowedSortFields field \<longrightarrow>
      buildSortQuery queryBuilder query allowedSortFields alias =
        orderBy (alias @ ''.'' @ field)
          (if q_sort_order query = Some ''desc'' \<or> q_sort_order query = Some ''DESC''
           then ''DESC'' else ''ASC'') queryBuilder)
   \<and> (q_sort_by query = None
        \<or> (q_sort_by query = Some field \<and> \<not> field_accepted allowedSortFields field) \<longrightarrow>
      buildSortQuery queryBuilder query allowedSortFields alias =
        orderBy (alias @ ''.created_at'') ''DESC'' queryBuilder)"
  by (auto simp: buildSortQuery_def Let_def array_includes_def validSortOrders_def
        toUpperCase_valid split: option.splits)

text \<open>An allowed field with the order \<open>DESC\<close>, and a field that is not allowed.\<close>

theorem buildSortQuery_field_and_order_witness:
  "field_accepted [''name'', ''email''] ''email''
   \<and> buildSortQuery new_builder
       \<lparr>q_search = None, q_sort_by = Some ''email'', q_sort_order = Some ''DESC'',
        q_filters = None\<rparr> [''name'', ''email''] ''user''
     = orderBy ''user.email'' ''DESC'' new_builder
   \<and> \<not> field_accepted [''name'', ''email''] ''unknownField''
   \<and> buildSortQuery new_builder
       \<lparr>q_search = None, q_sort_by = Some ''unknownField'', q_sort_order = Some ''asc'',
        q_filters = None\<rparr> [''name'', ''email''] ''user''
     = orderBy ''user.created_at'' ''DESC'' new_builder"
  using buildSortQuery_field_and_order
      [of "\<lparr>q_search = None, q_sort_by = Some ''email'', q_sort_order = Some ''DESC'',
        q_filters = None\<rparr>" "''email''" "[''name'', ''email'']" new_builder "''user''"]
    buildSortQuery_field_and_order
      [of "\<lparr>q_search = None, q_sort_by = Some ''unknownField'', q_sort_order = Some ''asc'',
        q_filters = None\<rparr>" "''unknownField''" "[''name'', ''email'']" new_builder "''user''"]
  by (simp add: field_accepted_def array_includes_def trim_def is_js_space_def)

section \<open>Properties of the pagination calculator\<close>

text \<open>
  For a total above 0 the number of pages that \<open>calculateMeta\<close> returns is at least
  1: there it is \<open>max(1, ceil(total / limit))\<close>.
\<close>

lemma calculateMeta_totalPages_positive:
  assumes "0 < t" and "1 \<le> l"
  shows "totalPages (calculateMeta (Num t) (Num p) (Num l)) =
           Math_max (Num 1) (Math_ceil (num_div (Num t) (Num l)))"
proof -
  from assms have l: "l \<noteq> 0" by simp
  from assms have "0 < t / l" by simp
  then have "1 \<le> \<lceil>t / l\<rceil>" by (simp add: Suc_le_eq)
  then have "max 1 (real_of_int \<lceil>t / l\<rceil>) = real_of_int \<lceil>t / l\<rceil>" by simp
  with l show ?thesis
    by (simp add: calculateMeta_def Let_def)
qed

text \<open>
  Claim C1. At \<open>total = 0\<close>, \<open>page = 1\<close>, \<open>limit = 10\<close> the function returns
  \<open>from = 0\<close> and \<open>to = 0\<close>, as the claim has it, but \<open>totalPages = 0\<close> where
  the claim has \<open>max(1, ceil(total / limit)) = 1\<close>: the current page, which the
  function does raise to 1, is then above the last page. \<open>ResponseHelper.paginate\<close>,
  which computes \<open>from\<close> and \<open>to\<close> by the same formulas, applies
  \<open>Math.max(1, lastPage)\<close> and reports the last page 1 for the same numbers.
\<close>

theorem calculateMeta_zero_total_has_no_page:
  "calculateMeta (Num 0) (Num 1) (Num 10) =
     \<lparr>totalPages = Num 0, currentPage = Num 1, perPage = Num 10,
      cm_from = Num 0, cm_to = Num 0\<rparr>
   \<and> Math_max (Num 1) (Math_ceil (num_div (Num 0) (Num 10))) = Num 1
   \<and> totalPages (calculateMeta (Num 0) (Num 1) (Num 10))
       \<noteq> Math_max (Num 1) (Math_ceil (num_div (Num 0) (Num 10)))
   \<and> num_gt (currentPage (calculateMeta (Num 0) (Num 1) (Num 10)))
        (totalPages (calculateMeta (Num 0) (Num 1) (Num 10)))
   \<and> ResponseHelper_paginate_meta (Num 1) (Num 0) (Num 10) (Num 0) =
       \<lparr>current_page = Num 1, last_page = Num 1, meta_per_page = Num 10,
        meta_total = Num 0, meta_from = Num 0, meta_to = Num 0\<rparr>"
  by (simp add: calculateMeta_def ResponseHelper_paginate_meta_def Let_def num_gt_def)

text \<open>The configured sizes are truthy, so they are not NaN.\<close>

lemma or_else_truthy: "truthy d \<Longrightarrow> truthy (or_else v d)"
  by (simp add: or_else_def split: option.splits)

lemma defaultPageSize_truthy: "truthy (defaultPageSize cs)"
  by (simp add: defaultPageSize_def or_else_truthy)

lemma maxPageSize_truthy: "truthy (maxPageSize cs)"
  by (simp add: maxPageSize_def or_else_truthy)

lemma truthy_not_NaN: "truthy x \<Longrightarrow> x \<noteq> NaN"
  by (cases x) simp_all

text \<open>
  The two steps of the code on \<open>per_page\<close> (\<open>||\<close>, then the test) give the
  \<open>per_page\<close> of the specification.
\<close>

lemma limit_coerced:
  "(let limit0 = or_else (per_page dto) (defaultPageSize cs)
    in if \<not> truthy limit0 \<or> isNaN limit0 \<or> num_lt limit0 (Num 1)
       then defaultPageSize cs else limit0) = spec_perPage dto cs"
proof (cases "per_page dto")
  case None
  then show ?thesis by (simp add: or_else_def spec_perPage_def Let_def)
next
  case (Some x)
  then show ?thesis
    by (cases x) (auto simp: or_else_def spec_perPage_def Let_def)
qed

lemma getPaginationLimits_limit:
  "limit (getPaginationLimits dto cs) =
     Math_max (Num 1) (Math_min (Math_floor (spec_perPage dto cs)) (maxPageSize cs))"
  using limit_coerced [of dto cs] by (simp add: getPaginationLimits_def Let_def)

lemma getPaginationLimits_offset:
  "offset (getPaginationLimits dto cs) =
     num_mul (num_sub (norm_page (getPaginationLimits dto cs)) (Num 1))
       (limit (getPaginationLimits dto cs))"
  by (simp add: getPaginationLimits_def Let_def)

lemma getPaginationLimits_page:
  "norm_page (getPaginationLimits dto cs) =
     (case page dto of
        None \<Rightarrow> Num 1
      | Some NaN \<Rightarrow> Num 1
      | Some PosInf \<Rightarrow> PosInf
      | Some NegInf \<Rightarrow> Num 1
      | Some (Num r) \<Rightarrow> if r < 1 then Num 1 else Num (of_int \<lfloor>r\<rfloor>))"
proof (cases "page dto")
  case None
  then show ?thesis by (simp add: getPaginationLimits_def Let_def ToNumber_def)
next
  case (Some x)
  show ?thesis
  proof (cases x)
    case (Num r)
    have "1 \<le> r \<Longrightarrow> max 1 (real_of_int \<lfloor>r\<rfloor>) = real_of_int \<lfloor>r\<rfloor>"
      by (simp add: le_floor_iff)
    with Some Num show ?thesis
      by (auto simp: getPaginationLimits_def Let_def ToNumber_def)
  qed (use Some in \<open>simp_all add: getPaginationLimits_def Let_def ToNumber_def\<close>)
qed

text \<open>
  Claim C4 as it is stated does not hold for every configuration. With a configured
  maximum of \<open>-1\<close>, a \<open>per_page\<close> of 20 is greater than the maximum and the limit
  is 1: the lower bound 1 is applied last. With a configured maximum of \<open>2.5\<close>, a
  \<open>per_page\<close> of \<open>2.7\<close> is greater than the maximum and the limit is 2: the floor
  is applied first.
\<close>

theorem limit_with_maximum_below_one:
  "maxPageSize (Some example_config) = Num (- 1)
   \<and> num_gt (Num 20) (maxPageSize (Some example_config))
   \<and> limit (getPaginationLimits
        \<lparr>page = Some (Num 1), per_page = Some (Num 20), sort_by = None, sort_order = None,
         filters = None\<rparr> (Some example_config)) = Num 1
   \<and> limit (getPaginationLimits
        \<lparr>page = Some (Num 1), per_page = Some (Num 20), sort_by = None, sort_order = None,
         filters = None\<rparr> (Some example_config)) \<noteq> maxPageSize (Some example_config)
   \<and> maxPageSize (Some example_config_fraction) = Num (5 / 2)
   \<and> num_gt (Num (27 / 10)) (maxPageSize (Some example_config_fraction))
   \<and> limit (getPaginationLimits
        \<lparr>page = Some (Num 1), per_page = Some (Num (27 / 10)), sort_by = None,
         sort_order = None, filters = None\<rparr> (Some example_config_fraction)) = Num 2"
  by (simp add: getPaginationLimits_limit spec_perPage_def maxPageSize_def or_else_def
        config_get_def example_config_def example_config_fraction_def num_gt_def)

text \<open>
  Claim C4, amended. A page that is absent, NaN or below 1 becomes 1, and a page
  \<open>r \<ge> 1\<close> becomes its floor. The limit is
  \<open>clamp(floor(perPage), 1, maxSize)\<close>, that is \<open>max(1, min(floor(perPage), maxSize))\<close>,
  where \<open>perPage\<close> is the default size when \<open>per_page\<close> is absent, NaN or below 1.
  The offset is \<open>(page - 1) * limit\<close>. When the maximum is a whole number \<open>\<ge> 1\<close>,
  as the built-in 100 is, a \<open>per_page\<close> greater than the maximum gives the maximum.
\<close>

theorem getPaginationLimits_normalizes:
  "(page dto = None \<or> page dto = Some NaN \<or> (page dto = Some x \<and> num_lt x (Num 1)) \<longrightarrow>
      norm_page (getPaginationLimits dto cs) = Num 1)
   \<and> (page dto = Some (Num r) \<and> 1 \<le> r \<longrightarrow>
      norm_page (getPaginationLimits dto cs) = Num (of_int \<lfloor>r\<rfloor>))
   \<and> limit (getPaginationLimits dto cs) =
       spec_clamp (Math_floor (spec_perPage dto cs)) (Num 1) (maxPageSize cs)
   \<and> offset (getPaginationLimits dto cs) =
       num_mul (num_sub (norm_page (getPaginationLimits dto cs)) (Num 1))
         (limit (getPaginationLimits dto cs))
   \<and> (maxPageSize cs = Num (of_int k) \<and> 1 \<le> k \<and> per_page dto = Some y
        \<and> num_gt y (maxPageSize cs) \<longrightarrow>
      limit (getPaginationLimits dto cs) = maxPageSize cs)"
proof (intro conjI impI)
  assume "page dto = None \<or> page dto = Some NaN \<or> (page dto = Some x \<and> num_lt x (Num 1))"
  then show "norm_page (getPaginationLimits dto cs) = Num 1"
    by (cases x) (auto simp: getPaginationLimits_page)
next
  assume "page dto = Some (Num r) \<and> 1 \<le> r"
  then show "norm_page (getPaginationLimits dto cs) = Num (of_int \<lfloor>r\<rfloor>)"
    by (simp add: getPaginationLimits_page)
next
  show "limit (getPaginationLimits dto cs) =
       spec_clamp (Math_floor (spec_perPage dto cs)) (Num 1) (maxPageSize cs)"
    by (simp add: getPaginationLimits_limit spec_clamp_def)
next
  show "offset (getPaginationLimits dto cs) =
       num_mul (num_sub (norm_page (getPaginationLimits dto cs)) (Num 1))
         (limit (getPaginationLimits dto cs))"
    by (rule getPaginationLimits_offset)
next
  assume h: "maxPageSize cs = Num (of_int k) \<and> 1 \<le> k \<and> per_page dto = Some y
        \<and> num_gt y (maxPageSize cs)"
  show "limit (getPaginationLimits dto cs) = maxPageSize cs"
  proof (cases y)
    case (Num v)
    with h have kv: "real_of_int k < v" by (auto simp: num_gt_def)
    then have "k \<le> \<lfloor>v\<rfloor>" by (simp add: le_floor_iff)
    then have m: "min (real_of_int \<lfloor>v\<rfloor>) (real_of_int k) = real_of_int k" by simp
    from h kv have "1 \<le> v" by linarith
    with h Num m show ?thesis
      by (simp add: getPaginationLimits_limit spec_perPage_def)
  next
    case PosInf
    with h show ?thesis
      by (simp add: getPaginationLimits_limit spec_perPage_def)
  next
    case NegInf
    with h show ?thesis by (auto simp: num_gt_def)
  next
    case NaN
    with h show ?thesis by (auto simp: num_gt_def)
  qed
qed

text \<open>
  No configuration: page \<open>-2\<close> and page \<open>2.7\<close>, each with a \<open>per_page\<close> of 500.
\<close>

theorem getPaginationLimits_normalizes_witness:
  "num_lt (Num (- 2)) (Num 1)
   \<and> maxPageSize None = Num (of_int 100) \<and> (1::int) \<le> 100
   \<and> num_gt (Num 500) (maxPageSize None)
   \<and> getPaginationLimits
       \<lparr>page = Some (Num (- 2)), per_page = Some (Num 500), sort_by = None,
        sort_order = None, filters = None\<rparr> None
     = \<lparr>limit = Num 100, offset = Num 0, norm_page = Num 1\<rparr>
   \<and> (1::real) \<le> 27 / 10
   \<and> getPaginationLimits
       \<lparr>page = Some (Num (27 / 10)), per_page = Some (Num 500), sort_by = None,
        sort_order = None, filters = None\<rparr> None
     = \<lparr>limit = Num 100, offset = Num 100, norm_page = Num 2\<rparr>"
  using getPaginationLimits_normalizes
      [of "\<lparr>page = Some (Num (- 2)), per_page = Some (Num 500), sort_by = None,
            sort_order = None, filters = None\<rparr>" "Num (- 2)" None 1 100 "Num 500"]
    getPaginationLimits_normalizes
      [of "\<lparr>page = Some (Num (27 / 10)), per_page = Some (Num 500), sort_by = None,
            sort_order = None, filters = None\<rparr>" "Num 0" None "27 / 10" 100 "Num 500"]
  by (simp add: maxPageSize_def defaultPageSize_def config_get_def or_else_def num_gt_def
        getPaginationLimits_def Let_def ToNumber_def)

text \<open>The limit is never NaN: it is a finite number that is at least 1, or infinite.\<close>

lemma spec_perPage_not_NaN: "spec_perPage dto cs \<noteq> NaN"
proof (cases "per_page dto")
  case None
  then show ?thesis
    using truthy_not_NaN [OF defaultPageSize_truthy [of cs]] by (simp add: spec_perPage_def)
next
  case (Some x)
  then show ?thesis
    using truthy_not_NaN [OF defaultPageSize_truthy [of cs]]
    by (cases x) (simp_all add: spec_perPage_def)
qed

lemma Math_floor_NaN: "Math_floor x = NaN \<longleftrightarrow> x = NaN"
  by (cases x) simp_all

lemma Math_min_NaN: "Math_min a b = NaN \<longleftrightarrow> a = NaN \<or> b = NaN"
  by (cases a; cases b) simp_all

lemma Math_max_one: "x \<noteq> NaN \<Longrightarrow> Math_max (Num 1) x = PosInf \<or> (\<exists>l\<ge>1. Math_max (Num 1) x = Num l)"
  by (cases x) simp_all

lemma limit_shape:
  "limit (getPaginationLimits dto cs) = PosInf
   \<or> (\<exists>l\<ge>1. limit (getPaginationLimits dto cs) = Num l)"
  unfolding getPaginationLimits_limit
  by (rule Math_max_one)
     (simp add: Math_min_NaN Math_floor_NaN spec_perPage_not_NaN
        truthy_not_NaN [OF maxPageSize_truthy])

text \<open>
  Claim C10. In the result of \<open>paginateWithTypeORM\<close>, where \<open>n\<close> is the count that
  the database returns: \<open>current_page\<close> is the page of \<open>getPaginationLimits\<close> as it
  is, whatever the last page; \<open>from\<close> is \<open>offset + 1\<close> when \<open>n > 0\<close>; \<open>to\<close> is
  \<open>min(offset + limit, n)\<close>; and when \<open>n > 0\<close> and the offset is at least \<open>n\<close>,
  \<open>from\<close> is greater than \<open>to\<close>.
\<close>

theorem paginateWithTypeORM_meta:
  assumes "lims = getPaginationLimits paginationDto configService"
    and "getManyAndCount (take_rows (limit lims) (skip (offset lims) queryBuilder)) = (rows, n)"
    and "m = meta (paginateWithTypeORM getManyAndCount queryBuilder paginationDto configService)"
  shows "current_page m = norm_page lims
       \<and> (0 < n \<longrightarrow> meta_from m = num_add (offset lims) (Num 1))
       \<and> meta_to m = Math_min (num_add (offset lims) (limit lims)) (Num (real n))
       \<and> (0 < n \<and> num_le (Num (real n)) (offset lims) \<longrightarrow> num_gt (meta_from m) (meta_to m))"
proof -
  have m: "m = \<lparr>current_page = norm_page lims,
                last_page = Math_ceil (num_div (Num (real n)) (limit lims)),
                meta_per_page = limit lims, meta_total = Num (real n),
                meta_from = (if num_gt (Num (real n)) (Num 0)
                             then num_add (offset lims) (Num 1) else Num 0),
                meta_to = Math_min (num_add (offset lims) (limit lims)) (Num (real n))\<rparr>"
    using assms by (simp add: paginateWithTypeORM_def Let_def)
  have past: "num_gt (meta_from m) (meta_to m)"
    if n: "0 < n" and le: "num_le (Num (real n)) (offset lims)"
  proof -
    from limit_shape [of paginationDto configService] assms(1)
    consider "limit lims = PosInf" | l where "1 \<le> l" "limit lims = Num l"
      by auto
    then show ?thesis
    proof cases
      case 1
      with n le show ?thesis
        by (cases "offset lims") (simp_all add: m num_gt_def)
    next
      case 2
      with n le show ?thesis
        by (cases "offset lims") (simp_all add: m num_gt_def)
    qed
  qed
  show ?thesis
    using past by (simp add: m num_gt_def)
qed

text \<open>
  Page 5 of pages of 10 when 12 rows match: the current page is 5 and the last page 2,
  \<open>from\<close> is 41 and \<open>to\<close> is 12.
\<close>

theorem paginateWithTypeORM_meta_witness:
  "example_getManyAndCount
       (take_rows (Num 10) (skip (Num 40) new_builder)) = ([], 12)
   \<and> getPaginationLimits
       \<lparr>page = Some (Num 5), per_page = Some (Num 10), sort_by = None, sort_order = None,
        filters = None\<rparr> None
     = \<lparr>limit = Num 10, offset = Num 40, norm_page = Num 5\<rparr>
   \<and> (0::nat) < 12 \<and> num_le (Num (real (12::nat))) (Num 40)
   \<and> meta (paginateWithTypeORM example_getManyAndCount new_builder
        \<lparr>page = Some (Num 5), per_page = Some (Num 10), sort_by = None, sort_order = None,
         filters = None\<rparr> None)
     = \<lparr>current_page = Num 5, last_page = Num 2, meta_per_page = Num 10,
        meta_total = Num 12, meta_from = Num 41, meta_to = Num 12\<rparr>
   \<and> num_gt (Num 41) (Num 12)"
  using paginateWithTypeORM_meta
    [of "getPaginationLimits
           \<lparr>page = Some (Num 5), per_page = Some (Num 10), sort_by = None, sort_order = None,
            filters = None\<rparr> None"
        "\<lparr>page = Some (Num 5), per_page = Some (Num 10), sort_by = None, sort_order = None,
            filters = None\<rparr>" None example_getManyAndCount new_builder "[]" 12
        "meta (paginateWithTypeORM example_getManyAndCount new_builder
           \<lparr>page = Some (Num 5), per_page = Some (Num 10), sort_by = None, sort_order = None,
            filters = None\<rparr> None)"]
  by (simp add: paginateWithTypeORM_def example_getManyAndCount_def getPaginationLimits_def
        Let_def ToNumber_def or_else_def defaultPageSize_def maxPageSize_def config_get_def
        num_gt_def)

end
